theory Spec2Isabelle
  imports Complex_Main
begin

chapter \<open>The program\<close>

section \<open>JavaScript strings\<close>

text \<open>
  A JavaScript string is a sequence of UTF-16 code units; it is modelled as the list of
  their numeric values. \<open>asc\<close> embeds an ASCII literal.
\<close>

type_synonym jstring = "nat list"

definition asc :: "string \<Rightarrow> jstring" where
  "asc s = map of_char s"

text \<open>\<open>String(x || "")\<close> and \<open>String(x ?? "")\<close> for a value that is a string, or
  null/undefined (\<open>None\<close>).\<close>

definition or_empty :: "jstring option \<Rightarrow> jstring" where
  "or_empty x = (case x of None \<Rightarrow> [] | Some s \<Rightarrow> s)"

text \<open>\<open>String.prototype.trim\<close> removes WhiteSpace and LineTerminator code units
  from both ends.\<close>

definition isWhiteSpace :: "nat \<Rightarrow> bool" where
  "isWhiteSpace c \<longleftrightarrow>
     c = 9 \<or> c = 10 \<or> c = 11 \<or> c = 12 \<or> c = 13 \<or> c = 32 \<or> c = 160 \<or> c = 5760 \<or>
     (8192 \<le> c \<and> c \<le> 8202) \<or> c = 8232 \<or> c = 8233 \<or> c = 8239 \<or> c = 8287 \<or>
     c = 12288 \<or> c = 65279"

definition trim :: "jstring \<Rightarrow> jstring" where
  "trim s = rev (dropWhile isWhiteSpace (rev (dropWhile isWhiteSpace s)))"

section \<open>Broker adapter (app/queue.server.js)\<close>

datatype queue_error =
    RedisUrlNotSet
  | MissingJobId

text \<open>\<open>getRedisUrl\<close>: throws when \<open>REDIS_URL\<close> is unset or empty. \<open>getQueue\<close> calls
  it when it creates the queue, at the first use; the functions below are modelled at
  that first use.\<close>

definition getRedisUrl :: "jstring option \<Rightarrow> queue_error + jstring" where
  "getRedisUrl env_url =
     (case env_url of
        None \<Rightarrow> Inl RedisUrlNotSet
      | Some url \<Rightarrow> if url = [] then Inl RedisUrlNotSet else Inr url)"

text \<open>\<open>safeBullId\<close>: \<open>String(input || "").trim().replace(/[:]/g, "-")\<close>.
  Code unit 58 is the colon, 45 the hyphen.\<close>

definition safeBullId :: "jstring option \<Rightarrow> jstring" where
  "safeBullId input = map (\<lambda>c. if c = 58 then 45 else c) (trim (or_empty input))"

text \<open>The arguments of \<open>queue.add\<close>: payload and options.\<close>

record add_request =
  data_jobId :: jstring
  data_kind :: jstring
  opt_jobId :: jstring
  opt_attempts :: nat
  opt_backoff_delay :: nat
  opt_removeOnComplete :: bool
  opt_removeOnFail :: bool

text \<open>The parameter default \<open>kind = "generate"\<close> applies to an omitted argument
  (\<open>None\<close>).\<close>

definition kind_or_default :: "jstring option \<Rightarrow> jstring" where
  "kind_or_default kind = (case kind of None \<Rightarrow> asc ''generate'' | Some k \<Rightarrow> k)"

text \<open>\<open>enqueueSeoJob\<close> up to the call of \<open>queue.add\<close>: the result is the request
  handed to the broker, or the error thrown before it.\<close>

definition enqueueSeoJob :: "jstring option \<Rightarrow> jstring option \<Rightarrow> jstring option \<Rightarrow> queue_error + add_request" where
  "enqueueSeoJob env_url jobId kind =
     (case getRedisUrl env_url of
        Inl e \<Rightarrow> Inl e
      | Inr _ \<Rightarrow>
          (let k = kind_or_default kind;
               normalizedJobId = trim (or_empty jobId)
           in if normalizedJobId = [] then Inl MissingJobId
              else
                (let safeJobId = safeBullId (Some normalizedJobId);
                     safeKind = safeBullId (Some k);
                     customId = safeKind @ asc ''-'' @ safeJobId
                 in Inr \<lparr> data_jobId = normalizedJobId, data_kind = k, opt_jobId = customId,
                          opt_attempts = 3, opt_backoff_delay = 2000,
                          opt_removeOnComplete = True, opt_removeOnFail = True \<rparr>)))"

text \<open>\<open>removeSeoQueueJob\<close> up to the call of \<open>queue.remove\<close>: the id handed to the
  broker, or the \<open>ok: false\<close> result returned without a call.\<close>

datatype remove_outcome =
    RemoveNotIssued queue_error
  | RemoveIssued jstring

definition removeSeoQueueJob :: "jstring option \<Rightarrow> jstring option \<Rightarrow> jstring option \<Rightarrow> remove_outcome" where
  "removeSeoQueueJob env_url jobId kind =
     (case getRedisUrl env_url of
        Inl e \<Rightarrow> RemoveNotIssued e
      | Inr _ \<Rightarrow>
          (let k = kind_or_default kind;
               normalizedJobId = trim (or_empty jobId)
           in if normalizedJobId = [] then RemoveNotIssued MissingJobId
              else
                (let safeJobId = safeBullId (Some normalizedJobId);
                     safeKind = safeBullId (Some k);
                     customId = safeKind @ asc ''-'' @ safeJobId
                 in RemoveIssued customId)))"

text \<open>The external id in the words of the specification: \<open>safe\<close> strips colons.\<close>

definition strip_colons :: "jstring \<Rightarrow> jstring" where
  "strip_colons s = filter (\<lambda>c. c \<noteq> 58) s"

definition spec_external_id :: "jstring \<Rightarrow> jstring \<Rightarrow> jstring" where
  "spec_external_id kind jobId = strip_colons kind @ asc ''-'' @ strip_colons jobId"

section \<open>JavaScript numbers\<close>

text \<open>
  A JavaScript number is a finite value, NaN or an infinity. Finite values are modelled
  as rationals; the rounding of binary64 arithmetic is not fixed by the model but taken as
  a parameter \<open>rnd\<close>, the function that turns the exact result of an operation into the
  number the machine delivers (a finite value, or an infinity on overflow).
\<close>

datatype jsnum = Fin rat | NaN | PosInf | NegInf

datatype jsval = JUndefined | JNull | JBool bool | JNum jsnum | JStr jstring






section \<open>Cost pacing against the store API (app/worker/seo.worker.js)\<close>

text \<open>The part of a GraphQL response that the pacing reads:
  \<open>json?.extensions?.cost?.throttleStatus\<close>. An absent, null or non-object member is
  \<open>None\<close>; an absent field of \<open>throttleStatus\<close> is \<open>JUndefined\<close>.\<close>

record throttle_status =
  currentlyAvailable :: jsval
  restoreRate :: jsval

record cost_ext =
  throttleStatus :: "throttle_status option"

record extensions_obj =
  cost :: "cost_ext option"










section \<open>Regular-expression tests used by the worker\<close>

text \<open>
  The worker only tests for literal ASCII alternatives, with the flag \<open>i\<close>. Under that
  flag a code unit matches an ASCII pattern character when both have the same upper-case
  form; a code unit from 128 on never matches an ASCII character.
\<close>

definition upper_ascii :: "nat \<Rightarrow> nat" where
  "upper_ascii c = (if 97 \<le> c \<and> c \<le> 122 then c - 32 else c)"

fun ci_prefix :: "jstring \<Rightarrow> jstring \<Rightarrow> bool" where
  "ci_prefix [] s = True"
| "ci_prefix (p # ps) [] = False"
| "ci_prefix (p # ps) (c # cs) = (upper_ascii p = upper_ascii c \<and> ci_prefix ps cs)"

text \<open>\<open>/p/i.test(s)\<close> for a literal \<open>p\<close>: a match may start anywhere.\<close>

fun ci_search :: "jstring \<Rightarrow> jstring \<Rightarrow> bool" where
  "ci_search p [] = ci_prefix p []"
| "ci_search p (c # cs) = (ci_prefix p (c # cs) \<or> ci_search p cs)"

text \<open>The dot does not match a line terminator.\<close>

definition isLineTerminator :: "nat \<Rightarrow> bool" where
  "isLineTerminator c \<longleftrightarrow> c = 10 \<or> c = 13 \<or> c = 8232 \<or> c = 8233"

text \<open>\<open>.*p\<close> matched at the start of the string.\<close>

fun dot_star_then :: "jstring \<Rightarrow> jstring \<Rightarrow> bool" where
  "dot_star_then p [] = ci_prefix p []"
| "dot_star_then p (c # cs) = (ci_prefix p (c # cs) \<or> (\<not> isLineTerminator c \<and> dot_star_then p cs))"

text \<open>\<open>/max.*tokens/i.test(s)\<close>.\<close>

fun search_max_tokens :: "jstring \<Rightarrow> bool" where
  "search_max_tokens [] = False"
| "search_max_tokens (c # cs) =
     ((ci_prefix (asc ''max'') (c # cs) \<and> dot_star_then (asc ''tokens'') (drop 3 (c # cs)))
      \<or> search_max_tokens cs)"

text \<open>Decimal notation of a natural number, as a template literal prints it.\<close>

function show_nat :: "nat \<Rightarrow> jstring" where
  "show_nat n = (if n < 10 then [48 + n] else show_nat (n div 10) @ [48 + n mod 10])"
  by pat_completeness auto
termination
  by (relation "measure (\<lambda>n. n)") auto

section \<open>Failure classifier of the Generator (app/worker/seo.worker.js)\<close>

record classification =
  isTransient :: bool
  userMessage :: jstring

text \<open>A value used as a condition: a missing status and the status 0 are falsy.\<close>

definition truthy_status :: "int option \<Rightarrow> bool" where
  "truthy_status status = (case status of None \<Rightarrow> False | Some n \<Rightarrow> n \<noteq> 0)"

definition transientStatus :: "int set" where
  "transientStatus = {408, 409, 429, 500, 502, 503, 504}"

definition isAbort_of :: "jstring option \<Rightarrow> jstring option \<Rightarrow> bool" where
  "isAbort_of message name =
     (name = Some (asc ''AbortError'') \<or> ci_search (asc ''aborted'') (or_empty message))"

definition isNetwork_of :: "jstring option \<Rightarrow> bool" where
  "isNetwork_of message =
     (let m = or_empty message
      in ci_search (asc ''ECONNRESET'') m \<or> ci_search (asc ''ENOTFOUND'') m
         \<or> ci_search (asc ''EAI_AGAIN'') m \<or> ci_search (asc ''ETIMEDOUT'') m
         \<or> ci_search (asc ''network'') m)"

definition too_long_message :: "jstring option \<Rightarrow> bool" where
  "too_long_message message =
     (let m = or_empty message
      in ci_search (asc ''context length'') m \<or> search_max_tokens m
         \<or> ci_search (asc ''too long'') m)"

text \<open>\<open>classifyOpenAiFailure({ status, message, name })\<close>, branch by branch.\<close>

definition classifyOpenAiFailure :: "int option \<Rightarrow> jstring option \<Rightarrow> jstring option \<Rightarrow> classification" where
  "classifyOpenAiFailure status message name =
     (let isAbort = isAbort_of message name;
          isNetwork = isNetwork_of message;
          isTransient0 = ((truthy_status status \<and> the status \<in> transientStatus) \<or> isAbort \<or> isNetwork)
      in if status = Some 401 \<or> status = Some 403
         then \<lparr> isTransient = False, userMessage = asc ''OpenAI API key is invalid or missing.'' \<rparr>
         else if status = Some 429
         then \<lparr> isTransient = True, userMessage = asc ''OpenAI rate limit reached.'' \<rparr>
         else if status = Some 400 \<and> too_long_message message
         then \<lparr> isTransient = False, userMessage = asc ''Input is too long for the model.'' \<rparr>
         else if truthy_status status \<and> the status \<ge> 400 \<and> the status < 500
         then \<lparr> isTransient = False,
                userMessage = asc ''OpenAI request failed ('' @ show_nat (nat (the status)) @ asc '').'' \<rparr>
         else if truthy_status status \<and> the status \<ge> 500
         then \<lparr> isTransient = True,
                userMessage = asc ''OpenAI server error ('' @ show_nat (nat (the status)) @ asc '').'' \<rparr>
         else if isAbort
         then \<lparr> isTransient = True, userMessage = asc ''OpenAI request timed out.'' \<rparr>
         else if isNetwork
         then \<lparr> isTransient = True, userMessage = asc ''Network error while calling OpenAI.'' \<rparr>
         else \<lparr> isTransient = isTransient0, userMessage = asc ''OpenAI request failed.'' \<rparr>)"

section \<open>Free-plan usage reservation (app/billing.usage.server.js)\<close>

text \<open>\<open>String.prototype.includes\<close> for a literal pattern.\<close>

fun starts_with :: "jstring \<Rightarrow> jstring \<Rightarrow> bool" where
  "starts_with [] s = True"
| "starts_with (p # ps) [] = False"
| "starts_with (p # ps) (c # cs) = (p = c \<and> starts_with ps cs)"

fun str_includes :: "jstring \<Rightarrow> jstring \<Rightarrow> bool" where
  "str_includes p [] = starts_with p []"
| "str_includes p (c # cs) = (starts_with p (c # cs) \<or> str_includes p cs)"

text \<open>
  The table \<open>freePlanUsageMonthly\<close>, keyed by \<open>(shop, month)\<close>, reduced to its column
  \<open>used\<close>. A row that does not exist is \<open>None\<close>.
\<close>

type_synonym usage_db = "(jstring \<times> jstring) \<rightharpoonup> int"

text \<open>\<open>row?.used ?? 0\<close>.\<close>

definition used_of :: "usage_db \<Rightarrow> jstring \<times> jstring \<Rightarrow> int" where
  "used_of db key = (case db key of None \<Rightarrow> 0 | Some u \<Rightarrow> u)"

record reservation =
  res_ok :: bool
  res_code :: jstring
  res_month :: jstring
  res_used :: int
  res_limit :: int
  res_remaining :: int

text \<open>The body of the serializable transaction: upsert of the row, read, and either the
  refusal (the transaction still commits the upsert) or the update.\<close>

definition reserve_tx :: "usage_db \<Rightarrow> jstring \<Rightarrow> jstring \<Rightarrow> int \<Rightarrow> int \<Rightarrow> reservation \<times> usage_db" where
  "reserve_tx db shop month safeCount lmt =
     (let db1 = (case db (shop, month) of None \<Rightarrow> db((shop, month) \<mapsto> 0) | Some _ \<Rightarrow> db);
          used = used_of db1 (shop, month);
          newUsed = used + safeCount
      in if newUsed > lmt
         then (\<lparr> res_ok = False, res_code = asc ''FREE_LIMIT_EXCEEDED'', res_month = month,
                  res_used = used, res_limit = lmt, res_remaining = max 0 (lmt - used) \<rparr>, db1)
         else (\<lparr> res_ok = True, res_code = asc ''OK'', res_month = month,
                  res_used = newUsed, res_limit = lmt, res_remaining = max 0 (lmt - newUsed) \<rparr>,
               db1((shop, month) \<mapsto> newUsed)))"

text \<open>
  What the database does with the transaction of one attempt is outside the program: it
  commits, or it throws an error with a message and leaves the table as it was.
\<close>

datatype tx_fate = Commit | Throws jstring

definition shouldRetry :: "jstring \<Rightarrow> bool" where
  "shouldRetry msg \<longleftrightarrow>
     str_includes (asc ''Serialization'') msg \<or> str_includes (asc ''could not serialize access'') msg
     \<or> str_includes (asc ''P2034'') msg \<or> str_includes (asc ''deadlock detected'') msg
     \<or> str_includes (asc ''Transaction'') msg \<or> str_includes (asc ''timeout'') msg"

definition MAX_RETRIES :: nat where
  "MAX_RETRIES = 3"

datatype usage_error = TxError jstring

text \<open>The retry loop, from attempt \<open>attempt\<close> on. \<open>fate n\<close> is the fate of the
  transaction of attempt \<open>n\<close>. The pause of \<open>50 * attempt\<close> ms between attempts has no
  effect on the table and is left out.\<close>

function reserve_loop ::
  "(nat \<Rightarrow> tx_fate) \<Rightarrow> usage_db \<Rightarrow> jstring \<Rightarrow> jstring \<Rightarrow> int \<Rightarrow> int \<Rightarrow> nat
     \<Rightarrow> (usage_error + reservation) \<times> usage_db" where
  "reserve_loop fate db shop month safeCount lmt attempt =
     (if attempt \<le> MAX_RETRIES
      then (case fate attempt of
              Commit \<Rightarrow> (case reserve_tx db shop month safeCount lmt of (r, db') \<Rightarrow> (Inr r, db'))
            | Throws msg \<Rightarrow>
                if \<not> shouldRetry msg \<or> attempt = MAX_RETRIES then (Inl (TxError msg), db)
                else reserve_loop fate db shop month safeCount lmt (attempt + 1))
      else (Inr \<lparr> res_ok = False, res_code = asc ''UNKNOWN'', res_month = month,
                  res_used = 0, res_limit = lmt, res_remaining = lmt \<rparr>, db))"
  by pat_completeness auto
termination
  by (relation "measure (\<lambda>(fate, db, shop, month, safeCount, lmt, attempt). Suc MAX_RETRIES - attempt)")
     auto

declare reserve_loop.simps [simp del]

text \<open>\<open>reserveFreeUsageMonthly(shop, count, limit)\<close>. \<open>count\<close> is an integer, \<open>month\<close>
  the month key of the current date, \<open>limit\<close> may be omitted.\<close>

definition reserveFreeUsageMonthly ::
  "(nat \<Rightarrow> tx_fate) \<Rightarrow> usage_db \<Rightarrow> jstring \<Rightarrow> jstring \<Rightarrow> int \<Rightarrow> int option
     \<Rightarrow> (usage_error + reservation) \<times> usage_db" where
  "reserveFreeUsageMonthly fate db shop month cnt lim_opt =
     (let safeCount = max 0 cnt;
          lmt = (case lim_opt of None \<Rightarrow> 10 | Some l \<Rightarrow> l)
      in if safeCount = 0
         then (Inr \<lparr> res_ok = True, res_code = asc ''OK'', res_month = month,
                      res_used = 0, res_limit = lmt, res_remaining = lmt \<rparr>, db)
         else reserve_loop fate db shop month safeCount lmt 1)"

section \<open>SEO writers of the store API client (app/worker/seo.worker.js)\<close>

text \<open>An entry of the \<open>metafields\<close> variable of the \<open>metafieldsSet\<close> mutation.\<close>

record metafield =
  mf_ownerId :: jstring
  mf_namespace :: jstring
  mf_key :: jstring
  mf_type :: jstring
  mf_value :: jstring

definition title_tag :: "jstring \<Rightarrow> jstring \<Rightarrow> metafield" where
  "title_tag owner v =
     \<lparr> mf_ownerId = owner, mf_namespace = asc ''global'', mf_key = asc ''title_tag'',
       mf_type = asc ''single_line_text_field'', mf_value = v \<rparr>"

definition description_tag :: "jstring \<Rightarrow> jstring \<Rightarrow> metafield" where
  "description_tag owner v =
     \<lparr> mf_ownerId = owner, mf_namespace = asc ''global'', mf_key = asc ''description_tag'',
       mf_type = asc ''single_line_text_field'', mf_value = v \<rparr>"

text \<open>\<open>Array.prototype.join\<close>.\<close>

fun js_join :: "jstring \<Rightarrow> jstring list \<Rightarrow> jstring" where
  "js_join sep [] = []"
| "js_join sep [x] = x"
| "js_join sep (x # y # ys) = x @ sep @ js_join sep (y # ys)"

text \<open>
  The store API is outside the program. A write through \<open>shopifyGraphqlJsonWithRetry\<close>
  either throws an error with a message (\<open>Inl\<close>) or returns the messages of the
  \<open>userErrors\<close> of the mutation (\<open>Inr\<close>, empty on success); \<open>mutate\<close> gives that outcome
  for each payload. A writer returns the payloads it sent, in order, and its own outcome.
\<close>

type_synonym mutate_fn = "metafield list \<Rightarrow> jstring + jstring list"

type_synonym write_result = "metafield list list \<times> (jstring + unit)"

text \<open>What \<open>updateProductSeo\<close> reads of the product: the values of the two metafields
  and of the native SEO fields, each possibly null. No product at all is \<open>None\<close>.\<close>

record product_read =
  p_titleTag :: "jstring option"
  p_descriptionTag :: "jstring option"
  p_seo_title :: "jstring option"
  p_seo_description :: "jstring option"

definition field_of :: "'a option \<Rightarrow> ('a \<Rightarrow> jstring option) \<Rightarrow> jstring" where
  "field_of p f = trim (or_empty (case p of None \<Rightarrow> None | Some r \<Rightarrow> f r))"

text \<open>The staging part of \<open>updateProductSeo\<close>: from \<open>titleVal\<close> to the finished
  \<open>metafields\<close> array.\<close>

definition product_metafields ::
  "jstring \<Rightarrow> jstring option \<Rightarrow> jstring option \<Rightarrow> bool \<Rightarrow> bool \<Rightarrow> product_read option \<Rightarrow> metafield list" where
  "product_metafields ident seoTitle seoDescription metaTitle metaDescription p =
     (let titleVal = trim (or_empty seoTitle);
          descVal = trim (or_empty seoDescription);
          titleTagVal = field_of p p_titleTag;
          descTagVal = field_of p p_descriptionTag;
          seoTitleVal = field_of p p_seo_title;
          seoDescVal = field_of p p_seo_description;
          currentTitle = (if titleTagVal \<noteq> [] then titleTagVal else seoTitleVal);
          currentDesc = (if descTagVal \<noteq> [] then descTagVal else seoDescVal);
          willWriteTitle = (metaTitle \<and> titleVal \<noteq> []);
          willWriteDesc = (metaDescription \<and> descVal \<noteq> [])
      in (if willWriteTitle then [title_tag ident titleVal] else [])
         @ (if willWriteDesc then [description_tag ident descVal] else [])
         @ (if willWriteTitle \<and> \<not> willWriteDesc \<and> metaDescription
               \<and> field_of p p_descriptionTag = [] \<and> currentDesc \<noteq> []
            then [description_tag ident currentDesc] else [])
         @ (if willWriteDesc \<and> \<not> willWriteTitle \<and> metaTitle
               \<and> field_of p p_titleTag = [] \<and> currentTitle \<noteq> []
            then [title_tag ident currentTitle] else []))"

text \<open>\<open>updateProductSeo\<close>. \<open>read_outcome\<close> is the outcome of the query for the current
  values: an error thrown by the client or by the timeout, or the product.\<close>

definition updateProductSeo ::
  "(jstring + product_read option) \<Rightarrow> mutate_fn \<Rightarrow> jstring \<Rightarrow> jstring option \<Rightarrow> jstring option
     \<Rightarrow> bool \<Rightarrow> bool \<Rightarrow> write_result" where
  "updateProductSeo read_outcome mutate ident seoTitle seoDescription metaTitle metaDescription =
     (case read_outcome of
        Inl e \<Rightarrow> ([], Inl e)
      | Inr p \<Rightarrow>
          (let metafields = product_metafields ident seoTitle seoDescription metaTitle metaDescription p
           in if metafields = [] then ([], Inr ())
              else (case mutate metafields of
                      Inl e \<Rightarrow> ([metafields], Inl e)
                    | Inr errs \<Rightarrow>
                        if errs \<noteq> [] then ([metafields], Inl (js_join (asc '' | '') errs))
                        else ([metafields], Inr ()))))"

text \<open>\<open>normalizeArticleOwnerId\<close> and \<open>ownerIdCandidatesForArticle\<close>. The replacement of
  the first occurrence of a prefix the string starts with replaces that prefix.\<close>

definition article_prefix :: jstring where
  "article_prefix = asc ''gid://shopify/Article/''"

definition online_store_article_prefix :: jstring where
  "online_store_article_prefix = asc ''gid://shopify/OnlineStoreArticle/''"

definition to_article_form :: "jstring \<Rightarrow> jstring" where
  "to_article_form s = article_prefix @ drop (length online_store_article_prefix) s"

definition all_digits :: "jstring \<Rightarrow> bool" where
  "all_digits s \<longleftrightarrow> s \<noteq> [] \<and> (\<forall>c \<in> set s. 48 \<le> c \<and> c \<le> 57)"

definition normalizeArticleOwnerId :: "jstring \<Rightarrow> jstring" where
  "normalizeArticleOwnerId ident =
     (if ident = [] then []
      else (let s = trim ident
            in if starts_with article_prefix s then s
               else if starts_with online_store_article_prefix s then to_article_form s
               else if all_digits s then article_prefix @ s
               else s))"

text \<open>The final filter keeps the first occurrence of every candidate.\<close>

definition ownerIdCandidatesForArticle :: "jstring option \<Rightarrow> jstring list" where
  "ownerIdCandidatesForArticle articleId =
     (let s = trim (or_empty articleId);
          norm = normalizeArticleOwnerId s;
          c = (if s \<noteq> [] then [s] else [])
              @ (if norm \<noteq> [] then [norm] else [])
              @ (if starts_with online_store_article_prefix s then [to_article_form s] else [])
      in rev (remdups (rev c)))"

text \<open>What \<open>fetchArticle\<close> returns of the article: the values of its two metafields.\<close>

record article_read =
  a_titleTag :: "jstring option"
  a_descriptionTag :: "jstring option"

text \<open>The staging part of one round of the loop of \<open>updateArticleSeoMetafields\<close>.\<close>

definition article_metafields ::
  "jstring \<Rightarrow> jstring option \<Rightarrow> jstring option \<Rightarrow> bool \<Rightarrow> bool \<Rightarrow> article_read option \<Rightarrow> metafield list" where
  "article_metafields currentOwnerId seoTitle seoDescription metaTitle metaDescription live =
     (let liveTitle = field_of live a_titleTag;
          liveDesc = field_of live a_descriptionTag;
          titleVal = trim (or_empty seoTitle);
          descVal = trim (or_empty seoDescription);
          willWriteTitle = (metaTitle \<and> titleVal \<noteq> []);
          willWriteDesc = (metaDescription \<and> descVal \<noteq> [])
      in (if willWriteTitle then [title_tag currentOwnerId titleVal] else [])
         @ (if willWriteDesc then [description_tag currentOwnerId descVal] else [])
         @ (if willWriteTitle \<and> \<not> willWriteDesc \<and> metaDescription \<and> liveDesc \<noteq> []
            then [description_tag currentOwnerId liveDesc] else [])
         @ (if willWriteDesc \<and> \<not> willWriteTitle \<and> metaTitle \<and> liveTitle \<noteq> []
            then [title_tag currentOwnerId liveTitle] else []))"

definition invalid_id :: "jstring \<Rightarrow> bool" where
  "invalid_id msg = ci_search (asc ''invalid id'') msg"

text \<open>The loop over the owner id candidates. An \<open>invalid id\<close> answer, thrown or reported
  as a user error, moves on to the next candidate; any other error ends the writer.\<close>

fun article_loop ::
  "mutate_fn \<Rightarrow> (jstring \<Rightarrow> metafield list) \<Rightarrow> jstring list \<Rightarrow> jstring list \<Rightarrow> write_result" where
  "article_loop mutate stage allCandidates [] =
     ([], Inl (asc ''Invalid id for Article metafields ownerId. Tried: ''
               @ js_join (asc '', '') allCandidates))"
| "article_loop mutate stage allCandidates (currentOwnerId # rest) =
     (let metafields = stage currentOwnerId
      in if metafields = [] then ([], Inr ())
         else (case mutate metafields of
                 Inr errs \<Rightarrow>
                   if errs \<noteq> []
                   then (let msg = js_join (asc '' | '') errs
                         in if invalid_id msg
                            then (case article_loop mutate stage allCandidates rest of
                                    (sent, res) \<Rightarrow> (metafields # sent, res))
                            else ([metafields], Inl msg))
                   else ([metafields], Inr ())
               | Inl msg \<Rightarrow>
                   if invalid_id msg
                   then (case article_loop mutate stage allCandidates rest of
                           (sent, res) \<Rightarrow> (metafields # sent, res))
                   else ([metafields], Inl msg)))"

text \<open>\<open>updateArticleSeoMetafields\<close>. A failed read of the live values counts as no
  article.\<close>

definition updateArticleSeoMetafields ::
  "(jstring + article_read option) \<Rightarrow> mutate_fn \<Rightarrow> jstring option \<Rightarrow> jstring option \<Rightarrow> jstring option
     \<Rightarrow> bool \<Rightarrow> bool \<Rightarrow> write_result" where
  "updateArticleSeoMetafields read_outcome mutate articleId seoTitle seoDescription metaTitle metaDescription =
     (let ownerIdCandidates = ownerIdCandidatesForArticle articleId;
          live = (case read_outcome of Inl e \<Rightarrow> None | Inr a \<Rightarrow> a)
      in article_loop mutate
           (\<lambda>currentOwnerId. article_metafields currentOwnerId seoTitle seoDescription metaTitle metaDescription live)
           ownerIdCandidates ownerIdCandidates)"

text \<open>
  The property of a staged entry: its value is not empty; the job is configured to write
  the field the entry belongs to; and the value is the generated value after trimming or,
  when that is empty, the live value.
\<close>

definition staged_as_configured ::
  "metafield \<Rightarrow> jstring option \<Rightarrow> jstring option \<Rightarrow> bool \<Rightarrow> bool \<Rightarrow> jstring \<Rightarrow> jstring \<Rightarrow> bool" where
  "staged_as_configured m seoTitle seoDescription metaTitle metaDescription liveTitle liveDesc \<longleftrightarrow>
     mf_value m \<noteq> []
     \<and> (mf_key m = asc ''title_tag'' \<longrightarrow>
          metaTitle \<and> (mf_value m = trim (or_empty seoTitle)
                       \<or> (trim (or_empty seoTitle) = [] \<and> mf_value m = liveTitle)))
     \<and> (mf_key m = asc ''description_tag'' \<longrightarrow>
          metaDescription \<and> (mf_value m = trim (or_empty seoDescription)
                             \<or> (trim (or_empty seoDescription) = [] \<and> mf_value m = liveDesc)))"

section \<open>Jobs and items (the tables \<open>seoJob\<close> and \<open>seoJobItem\<close>)\<close>

text \<open>
  The status and phase columns are strings; the values the program writes and tests are
  the constructors below. Timestamps are milliseconds, a null column is \<open>None\<close>. The rows
  carry the columns the worker reads or writes in the functions modelled here. The schema
  is not part of the source; of an item id only equality and order are used.
\<close>

datatype status = queued | running | success | failed | cancelled | skipped

datatype phase = generating | generated | publishing | published

datatype job_type = PRODUCT_SEO | ALT_TEXT_IMAGES | BLOG_SEO_META

datatype target_type = PRODUCT | IMAGE | BLOG_ARTICLE

record seoJob =
  j_id :: jstring
  j_shop :: "jstring option"
  j_status :: status
  j_phase :: "phase option"
  j_jobType :: "job_type option"
  j_total :: int
  j_okCount :: int
  j_failedCount :: int
  j_totalAttempts :: int
  j_totalRetryWaitMs :: int
  j_lastError :: "jstring option"
  j_metaTitle :: bool
  j_metaDescription :: bool
  j_createdAt :: int
  j_startedAt :: "int option"
  j_finishedAt :: "int option"
  j_publishStartedAt :: "int option"
  j_publishFinishedAt :: "int option"
  j_lastHeartbeatAt :: "int option"
  j_lockOwner :: "jstring option"
  j_lockExpiresAt :: "int option"

record seoJobItem =
  i_id :: nat
  i_jobId :: jstring
  i_targetType :: target_type
  i_targetId :: "jstring option"
  i_productId :: "jstring option"
  i_productTitle :: "jstring option"
  i_status :: status
  i_startedAt :: "int option"
  i_finishedAt :: "int option"
  i_error :: "jstring option"
  i_genAttempts :: int
  i_genRetryWaitMs :: int
  i_seoTitle :: "jstring option"
  i_seoDescription :: "jstring option"
  i_publishStatus :: "status option"
  i_publishedAt :: "int option"
  i_publishError :: "jstring option"

record database =
  jobs :: "seoJob list"
  items :: "seoJobItem list"

text \<open>\<open>prisma.seoJob.update({ where: { id }, data })\<close> and
  \<open>prisma.seoJobItem.updateMany({ where, data })\<close>.\<close>

definition update_job :: "jstring \<Rightarrow> (seoJob \<Rightarrow> seoJob) \<Rightarrow> database \<Rightarrow> database" where
  "update_job ident f db = db\<lparr> jobs := map (\<lambda>j. if j_id j = ident then f j else j) (jobs db) \<rparr>"

definition update_items :: "(seoJobItem \<Rightarrow> bool) \<Rightarrow> (seoJobItem \<Rightarrow> seoJobItem) \<Rightarrow> database \<Rightarrow> database" where
  "update_items cond f db = db\<lparr> items := map (\<lambda>i. if cond i then f i else i) (items db) \<rparr>"

section \<open>Stuck-job recovery (app/worker/seo.worker.js)\<close>

text \<open>The filter \<open>{ not: null, lt: c }\<close> on a nullable timestamp.\<close>

definition not_null_lt :: "int option \<Rightarrow> int \<Rightarrow> bool" where
  "not_null_lt x c = (case x of None \<Rightarrow> False | Some v \<Rightarrow> v < c)"

text \<open>The \<open>where\<close> clause of the scan. \<open>minutes\<close> is \<open>STUCK_JOB_MINUTES\<close> (10 unless
  the environment says otherwise).\<close>

definition is_stuck :: "nat \<Rightarrow> int \<Rightarrow> seoJob \<Rightarrow> bool" where
  "is_stuck minutes now j =
     (let cutoff = now - int minutes * 60000
      in j_status j = running
         \<and> not_null_lt (j_lockExpiresAt j) now
         \<and> (not_null_lt (j_lastHeartbeatAt j) cutoff
            \<or> not_null_lt (j_startedAt j) cutoff
            \<or> not_null_lt (j_publishStartedAt j) cutoff
            \<or> (j_startedAt j = None \<and> j_publishStartedAt j = None \<and> j_lastHeartbeatAt j = None)))"

text \<open>The scan: oldest first, at most 25 jobs.\<close>

definition stuck_jobs :: "nat \<Rightarrow> int \<Rightarrow> database \<Rightarrow> seoJob list" where
  "stuck_jobs minutes now db = take 25 (sort_key j_createdAt (filter (is_stuck minutes now) (jobs db)))"

definition recover_msg :: "nat \<Rightarrow> jstring" where
  "recover_msg minutes =
     asc ''Recovered stuck job (no heartbeat for >= '' @ show_nat minutes @ asc ''m)''"

text \<open>The body of the loop for one job of the scan. \<open>job\<close> is the row as the scan
  returned it.\<close>

definition recover_job :: "nat \<Rightarrow> int \<Rightarrow> seoJob \<Rightarrow> database \<Rightarrow> database" where
  "recover_job minutes now job db =
     (let ph = (case j_phase job of None \<Rightarrow> generating | Some p \<Rightarrow> p);
          msg = recover_msg minutes;
          db1 = (if ph = publishing
                 then update_items (\<lambda>i. i_jobId i = j_id job \<and> i_publishStatus i = Some running)
                        (\<lambda>i. i\<lparr> i_publishStatus := Some failed, i_publishError := Some msg \<rparr>) db
                 else update_items (\<lambda>i. i_jobId i = j_id job \<and> i_status i = running)
                        (\<lambda>i. i\<lparr> i_status := failed, i_finishedAt := Some now, i_error := Some msg \<rparr>) db)
      in update_job (j_id job)
           (\<lambda>j. j\<lparr> j_status := failed, j_finishedAt := Some now,
                   j_publishFinishedAt := (if ph = publishing then Some now else j_publishFinishedAt job),
                   j_lastError := Some msg, j_lockOwner := None, j_lockExpiresAt := None \<rparr>)
           db1)"

text \<open>\<open>recoverStuckJobs\<close> at the time \<open>now\<close>. A database error inside the loop is logged
  and the loop goes on; the model has no database errors.\<close>

definition recoverStuckJobs :: "nat \<Rightarrow> int \<Rightarrow> database \<Rightarrow> database" where
  "recoverStuckJobs minutes now db = fold (recover_job minutes now) (stuck_jobs minutes now db) db"

text \<open>The reason in the words of the specification; code unit 8805 is the sign
  \<open>\<ge>\<close>.\<close>

definition spec_recover_msg :: jstring where
  "spec_recover_msg = asc ''Recovered stuck job (no heartbeat '' @ [8805] @ asc '' 10m)''"

text \<open>A job in the generate phase whose worker stopped: lease until minute 5, last
  heartbeat at minute 0, one item left running; looked at in minute 11.\<close>

definition crashed_job :: seoJob where
  "crashed_job =
     \<lparr> j_id = asc ''J1'', j_shop = Some (asc ''t1.example''), j_status = running,
       j_phase = Some generating, j_jobType = Some PRODUCT_SEO, j_total = 1, j_okCount = 0,
       j_failedCount = 0, j_totalAttempts = 1, j_totalRetryWaitMs = 0, j_lastError = None,
       j_metaTitle = True, j_metaDescription = True, j_createdAt = 0, j_startedAt = Some 0,
       j_finishedAt = None, j_publishStartedAt = None, j_publishFinishedAt = None,
       j_lastHeartbeatAt = Some 0, j_lockOwner = Some (asc ''worker-1''),
       j_lockExpiresAt = Some 300000 \<rparr>"

definition crashed_item :: seoJobItem where
  "crashed_item =
     \<lparr> i_id = 1, i_jobId = asc ''J1'', i_targetType = PRODUCT, i_targetId = Some (asc ''P1''),
       i_productId = Some (asc ''P1''), i_productTitle = None, i_status = running,
       i_startedAt = Some 0, i_finishedAt = None, i_error = None, i_genAttempts = 1,
       i_genRetryWaitMs = 0, i_seoTitle = None, i_seoDescription = None,
       i_publishStatus = None, i_publishedAt = None, i_publishError = None \<rparr>"

definition crashed_db :: database where
  "crashed_db = \<lparr> jobs = [crashed_job], items = [crashed_item] \<rparr>"

section \<open>Language guard of the Generator client (app/worker/seo.worker.js)\<close>












section \<open>Generation of SEO texts (app/worker/seo.worker.js)\<close>





text \<open>\<open>String(a || b)\<close> for an optional string \<open>a\<close> and a string \<open>b\<close>.\<close>

definition or_else :: "jstring option \<Rightarrow> jstring \<Rightarrow> jstring" where
  "or_else a b = (if or_empty a \<noteq> [] then or_empty a else b)"



section \<open>Generate phase (app/worker/seo.worker.js)\<close>

text \<open>\<open>x || null\<close> for an optional string.\<close>

definition or_null :: "jstring option \<Rightarrow> jstring option" where
  "or_null x = (case x of None \<Rightarrow> None | Some s \<Rightarrow> if s = [] then None else Some s)"

text \<open>
  What the outside world does during the round of one item: whether the job is found
  cancelled at the head of the round; the outcome of the fetch of the product or article
  (an error, or its title, null when there is none); what the hooks \<open>onAttempt\<close> and
  \<open>onRetry\<close> have added up during the generation (number of attempts, waiting time, and
  the last progress message they wrote, if any); and the outcome of the generation (an
  error, or the texts).
\<close>

record telemetry =
  t_attempts :: nat
  t_retryWaitMs :: nat
  t_narration :: "jstring option"

record item_env =
  e_cancelled :: bool
  e_fetched :: "jstring + jstring option"
  e_telemetry :: telemetry
  e_seo :: "jstring + jstring \<times> jstring"
  e_alt :: "jstring + jstring"

text \<open>\<open>getAdminClientForShop\<close>: \<open>admin_error\<close> is the failure of the session lookup, if
  any.\<close>

definition getAdminClientForShop :: "jstring option \<Rightarrow> jstring option \<Rightarrow> jstring + unit" where
  "getAdminClientForShop shop admin_error =
     (if trim (or_empty shop) = [] then Inl (asc ''Missing shop on SeoJob (job.shop is empty).'')
      else (case admin_error of Some e \<Rightarrow> Inl e | None \<Rightarrow> Inr ()))"

text \<open>\<open>touchLock\<close> with the lease of five minutes, on the database. The refresh of the
  shop lock in the key-value store is outside the model.\<close>

definition touchLock :: "int \<Rightarrow> seoJob \<Rightarrow> database \<Rightarrow> database" where
  "touchLock now job db =
     db\<lparr> jobs := map (\<lambda>j. if j_id j = j_id job \<and> j_lockOwner j = j_lockOwner job
                          then j\<lparr> j_lockExpiresAt := Some (now + 300000),
                                  j_lastHeartbeatAt := Some now \<rparr>
                          else j) (jobs db) \<rparr>"

definition update_item :: "nat \<Rightarrow> (seoJobItem \<Rightarrow> seoJobItem) \<Rightarrow> database \<Rightarrow> database" where
  "update_item ident f db = update_items (\<lambda>i. i_id i = ident) f db"

text \<open>The effect of the hooks of one generation on the item and the job. The hooks of
  the article branch only count; those of the other branches also write their progress
  message to \<open>error\<close> and \<open>lastError\<close>.\<close>

definition apply_telemetry :: "bool \<Rightarrow> telemetry \<Rightarrow> seoJob \<Rightarrow> seoJobItem \<Rightarrow> database \<Rightarrow> database" where
  "apply_telemetry narrates t job item db =
     update_job (j_id job)
       (\<lambda>j. j\<lparr> j_totalAttempts := j_totalAttempts j + int (t_attempts t),
               j_totalRetryWaitMs := j_totalRetryWaitMs j + int (t_retryWaitMs t),
               j_lastError := (if narrates \<and> t_narration t \<noteq> None then t_narration t
                               else j_lastError j) \<rparr>)
       (update_item (i_id item)
          (\<lambda>i. i\<lparr> i_genAttempts := i_genAttempts i + int (t_attempts t),
                  i_genRetryWaitMs := i_genRetryWaitMs i + int (t_retryWaitMs t),
                  i_error := (if narrates \<and> t_narration t \<noteq> None then t_narration t
                              else i_error i) \<rparr>)
          db)"

text \<open>The \<open>catch\<close> branch of a round.\<close>

definition item_failed :: "int \<Rightarrow> seoJob \<Rightarrow> seoJobItem \<Rightarrow> jstring \<Rightarrow> database \<Rightarrow> database" where
  "item_failed now job item msg db =
     update_job (j_id job)
       (\<lambda>j. j\<lparr> j_failedCount := j_failedCount j + 1, j_lastError := Some msg \<rparr>)
       (update_item (i_id item)
          (\<lambda>i. i\<lparr> i_status := failed, i_finishedAt := Some now, i_error := Some msg \<rparr>)
          db)"

text \<open>The end of the \<open>try\<close> branch of a round: the item row is written, then the job
  counts one more success.\<close>

definition item_succeeded :: "seoJob \<Rightarrow> seoJobItem \<Rightarrow> (seoJobItem \<Rightarrow> seoJobItem) \<Rightarrow> database \<Rightarrow> database" where
  "item_succeeded job item write db =
     update_job (j_id job) (\<lambda>j. j\<lparr> j_okCount := j_okCount j + 1 \<rparr>)
       (update_item (i_id item) write db)"

text \<open>\<open>p?.title || item.productTitle || ""\<close>.\<close>

definition title_of :: "jstring option \<Rightarrow> seoJobItem \<Rightarrow> jstring" where
  "title_of fetched item = or_else fetched (or_empty (i_productTitle item))"

text \<open>\<open>title || item.productTitle\<close>.\<close>

definition stored_title :: "jstring \<Rightarrow> seoJobItem \<Rightarrow> jstring option" where
  "stored_title title item = (if title \<noteq> [] then Some title else i_productTitle item)"

definition isImageJob :: "seoJob \<Rightarrow> bool" where
  "isImageJob job \<longleftrightarrow> j_jobType job = Some ALT_TEXT_IMAGES"

definition isBlogJob :: "seoJob \<Rightarrow> bool" where
  "isBlogJob job \<longleftrightarrow> j_jobType job = Some BLOG_SEO_META"

text \<open>
  One round of the loop of \<open>processGenerate\<close>, after the cancellation check. \<open>job\<close> is
  the row the handler loaded, with the lock owner of the worker; \<open>item\<close> is the row as
  the query at the start of the phase returned it. One time \<open>now\<close> stands for all the
  readings of the clock in a run.
\<close>

definition generate_item :: "int \<Rightarrow> seoJob \<Rightarrow> item_env \<Rightarrow> seoJobItem \<Rightarrow> database \<Rightarrow> database" where
  "generate_item now job e item db =
     (let db1 = touchLock now job db;
          db2 = update_item (i_id item)
                  (\<lambda>i. i\<lparr> i_status := running, i_startedAt := Some now, i_error := None \<rparr>) db1
      in if isImageJob job
         then (if or_empty (i_productId item) = []
               then item_failed now job item (asc ''Missing productId for IMAGE item'') db2
               else (case e_fetched e of
                       Inl msg \<Rightarrow> item_failed now job item msg db2
                     | Inr fetched \<Rightarrow>
                         (let title = title_of fetched item;
                              db3 = apply_telemetry True (e_telemetry e) job item db2
                          in case e_alt e of
                               Inl msg \<Rightarrow> item_failed now job item msg db3
                             | Inr altText \<Rightarrow>
                                 item_succeeded job item
                                   (\<lambda>i. i\<lparr> i_status := success, i_finishedAt := Some now,
                                           i_productTitle := stored_title title item,
                                           i_seoTitle := or_null (Some altText) \<rparr>)
                                   db3)))
         else if isBlogJob job
         then (if or_else (i_targetId item) (or_empty (i_productId item)) = []
               then item_failed now job item (asc ''Missing articleId for BLOG_ARTICLE item'') db2
               else (case e_fetched e of
                       Inl msg \<Rightarrow> item_failed now job item msg db2
                     | Inr fetched \<Rightarrow>
                         (let db3 = apply_telemetry False (e_telemetry e) job item db2
                          in case e_seo e of
                               Inl msg \<Rightarrow> item_failed now job item msg db3
                             | Inr (outTitle, outDescription) \<Rightarrow>
                                 item_succeeded job item
                                   (\<lambda>i. i\<lparr> i_status := success, i_finishedAt := Some now,
                                           i_seoTitle := or_null (Some outTitle),
                                           i_seoDescription := or_null (Some outDescription),
                                           i_error := None \<rparr>)
                                   db3)))
         else (case e_fetched e of
                 Inl msg \<Rightarrow> item_failed now job item msg db2
               | Inr fetched \<Rightarrow>
                   (let title = title_of fetched item;
                        db3 = apply_telemetry True (e_telemetry e) job item db2
                    in case e_seo e of
                         Inl msg \<Rightarrow> item_failed now job item msg db3
                       | Inr (outTitle, outDescription) \<Rightarrow>
                           (let seoTitle = (if j_metaTitle job then Some outTitle
                                            else i_seoTitle item);
                                seoDescription = (if j_metaDescription job then Some outDescription
                                                  else i_seoDescription item)
                            in item_succeeded job item
                                 (\<lambda>i. i\<lparr> i_status := success, i_finishedAt := Some now,
                                         i_productTitle := stored_title title item,
                                         i_seoTitle := or_null seoTitle,
                                         i_seoDescription := or_null seoDescription \<rparr>)
                                 db3))))"

text \<open>The loop over the items found at the start. \<open>env\<close> gives the outside world of the
  round of each item, by item id. The first component of the result tells whether the
  loop stopped on a cancellation.\<close>

fun generate_loop ::
  "int \<Rightarrow> seoJob \<Rightarrow> (nat \<Rightarrow> item_env) \<Rightarrow> seoJobItem list \<Rightarrow> database \<Rightarrow> bool \<times> database" where
  "generate_loop now job env [] db = (False, db)"
| "generate_loop now job env (item # rest) db =
     (if e_cancelled (env (i_id item)) then (True, db)
      else generate_loop now job env rest (generate_item now job (env (i_id item)) item db))"

text \<open>The items the phase works on: those of the job that are queued or failed, of the
  target type of the job, by ascending id.\<close>

definition wanted_type :: "seoJob \<Rightarrow> target_type" where
  "wanted_type job = (if isImageJob job then IMAGE else if isBlogJob job then BLOG_ARTICLE else PRODUCT)"

definition eligible_items :: "seoJob \<Rightarrow> database \<Rightarrow> seoJobItem list" where
  "eligible_items job db =
     sort_key i_id
       (filter (\<lambda>i. i_jobId i = j_id job \<and> (i_status i = queued \<or> i_status i = failed)
                     \<and> i_targetType i = wanted_type job)
          (items db))"

text \<open>\<open>processGenerate(job)\<close>. The result is the error thrown, if any, and the database
  afterwards. \<open>cancelled_at_end\<close> is the answer of the cancellation check after the
  loop. The settings and the language of the job only reach the Generator, whose outcome
  is given by \<open>env\<close>; their parsing is not modelled.\<close>

definition processGenerate ::
  "int \<Rightarrow> jstring option \<Rightarrow> (nat \<Rightarrow> item_env) \<Rightarrow> bool \<Rightarrow> seoJob \<Rightarrow> database
     \<Rightarrow> jstring option \<times> database" where
  "processGenerate now admin_error env cancelled_at_end job db =
     (case getAdminClientForShop (j_shop job) admin_error of
        Inl e \<Rightarrow> (Some e, db)
      | Inr _ \<Rightarrow>
          (let db1 = update_job (j_id job)
                       (\<lambda>j. j\<lparr> j_status := running, j_startedAt := Some now,
                               j_lastHeartbeatAt := Some now, j_phase := Some generating,
                               j_lastError := None \<rparr>) db
           in case generate_loop now job env (eligible_items job db1) db1 of
                (stopped, db2) \<Rightarrow>
                  if stopped \<or> cancelled_at_end then (None, db2)
                  else (None, update_job (j_id job)
                                (\<lambda>j. j\<lparr> j_status := success, j_finishedAt := Some now,
                                        j_phase := Some generated \<rparr>) db2)))"

text \<open>
  A job of one product whose only item has failed and has been counted as failed, still
  in the generate phase: the state a run leaves behind when it is cut off after the item
  (an error of the database at the last update makes the handler throw), and which the
  broker, with its three attempts, delivers to \<open>processGenerate\<close> again.
\<close>

definition redelivered_job :: seoJob where
  "redelivered_job =
     \<lparr> j_id = asc ''J1'', j_shop = Some (asc ''t1.example''), j_status = running,
       j_phase = Some generating, j_jobType = Some PRODUCT_SEO, j_total = 1, j_okCount = 0,
       j_failedCount = 1, j_totalAttempts = 1, j_totalRetryWaitMs = 0,
       j_lastError = Some (asc ''OpenAI request failed (400).''),
       j_metaTitle = True, j_metaDescription = True, j_createdAt = 0, j_startedAt = Some 0,
       j_finishedAt = None, j_publishStartedAt = None, j_publishFinishedAt = None,
       j_lastHeartbeatAt = Some 0, j_lockOwner = Some (asc ''worker-1''),
       j_lockExpiresAt = None \<rparr>"

definition redelivered_item :: seoJobItem where
  "redelivered_item =
     \<lparr> i_id = 1, i_jobId = asc ''J1'', i_targetType = PRODUCT, i_targetId = Some (asc ''P1''),
       i_productId = Some (asc ''P1''), i_productTitle = None, i_status = failed,
       i_startedAt = Some 0, i_finishedAt = Some 0,
       i_error = Some (asc ''OpenAI request failed (400).''), i_genAttempts = 1,
       i_genRetryWaitMs = 0, i_seoTitle = None, i_seoDescription = None,
       i_publishStatus = None, i_publishedAt = None, i_publishError = None \<rparr>"

definition redelivered_db :: database where
  "redelivered_db = \<lparr> jobs = [redelivered_job], items = [redelivered_item] \<rparr>"

text \<open>The outside world of a round in which the fetch and the generation succeed at the
  first attempt.\<close>

definition smooth_round :: "jstring \<Rightarrow> jstring \<Rightarrow> item_env" where
  "smooth_round t d =
     \<lparr> e_cancelled = False, e_fetched = Inr (Some (asc ''Boot'')),
       e_telemetry = \<lparr> t_attempts = 1, t_retryWaitMs = 0, t_narration = None \<rparr>,
       e_seo = Inr (t, d), e_alt = Inr t \<rparr>"

text \<open>A product job that is configured to write descriptions only, with one queued item;
  \<open>stored\<close> is the title the item holds before the run.\<close>

definition description_only_job :: seoJob where
  "description_only_job =
     \<lparr> j_id = asc ''J2'', j_shop = Some (asc ''t1.example''), j_status = queued,
       j_phase = Some generating, j_jobType = Some PRODUCT_SEO, j_total = 1, j_okCount = 0,
       j_failedCount = 0, j_totalAttempts = 0, j_totalRetryWaitMs = 0, j_lastError = None,
       j_metaTitle = False, j_metaDescription = True, j_createdAt = 0, j_startedAt = None,
       j_finishedAt = None, j_publishStartedAt = None, j_publishFinishedAt = None,
       j_lastHeartbeatAt = None, j_lockOwner = Some (asc ''worker-1''),
       j_lockExpiresAt = None \<rparr>"

definition description_only_item :: "jstring option \<Rightarrow> seoJobItem" where
  "description_only_item stored =
     \<lparr> i_id = 7, i_jobId = asc ''J2'', i_targetType = PRODUCT, i_targetId = Some (asc ''P1''),
       i_productId = Some (asc ''P1''), i_productTitle = None, i_status = queued,
       i_startedAt = None, i_finishedAt = None, i_error = None, i_genAttempts = 0,
       i_genRetryWaitMs = 0, i_seoTitle = stored, i_seoDescription = None,
       i_publishStatus = None, i_publishedAt = None, i_publishError = None \<rparr>"

definition description_only_db :: "jstring option \<Rightarrow> database" where
  "description_only_db stored =
     \<lparr> jobs = [description_only_job], items = [description_only_item stored] \<rparr>"

chapter \<open>Verified properties\<close>

section \<open>Strings\<close>

lemma dropWhile_rev_prefix:
  assumes "t = [] \<or> \<not> P (hd t)"
  shows "dropWhile P (rev (dropWhile P (rev t))) = rev (dropWhile P (rev t))"
proof (cases "dropWhile P (rev t) = []")
  case True
  show ?thesis unfolding True by simp
next
  case False
  define u where "u = dropWhile P (rev t)"
  have "rev t = takeWhile P (rev t) @ u" by (simp add: u_def)
  then have "rev (rev t) = rev (takeWhile P (rev t) @ u)" by simp
  then have t: "t = rev u @ rev (takeWhile P (rev t))" by simp
  from False have une: "rev u \<noteq> []" by (simp add: u_def)
  then obtain x xs where ru: "rev u = x # xs" by (cases "rev u") auto
  with t have "hd t = x" by (metis hd_append2 list.sel(1) une)
  moreover from t une have "t \<noteq> []" by auto
  ultimately have "\<not> P x" using assms by auto
  then have "dropWhile P (rev u) = rev u" using ru by simp
  then show ?thesis by (simp add: u_def)
qed

lemma trim_idem: "trim (trim s) = trim s"
proof -
  let ?t = "dropWhile isWhiteSpace s"
  have h: "?t = [] \<or> \<not> isWhiteSpace (hd ?t)"
    by (metis hd_dropWhile)
  have "dropWhile isWhiteSpace (rev (dropWhile isWhiteSpace (rev ?t))) = rev (dropWhile isWhiteSpace (rev ?t))"
    by (rule dropWhile_rev_prefix [of "?t" isWhiteSpace, OF h])
  then show ?thesis
    by (simp add: trim_def)
qed

section \<open>Broker adapter\<close>

lemma asc_hyphen: "asc ''-'' = [45]"
  by (simp add: asc_def)

lemma safeBullId_no_colon: "58 \<notin> set (safeBullId x)"
  by (auto simp: safeBullId_def)

text \<open>
  C8, as stated, at job id \<open>a:b\<close> and kind \<open>generate\<close>: the code enqueues under the id
  \<open>generate-a-b\<close>, since \<open>safeBullId\<close> replaces the colon by a hyphen; stripping the
  colon, as the claim words it, would give \<open>generate-ab\<close>.
\<close>

theorem external_id_counterexample:
  "map_sum id opt_jobId
     (enqueueSeoJob (Some (asc ''redis://h'')) (Some (asc ''a:b'')) (Some (asc ''generate'')))
     = Inr (asc ''generate-a-b'')
   \<and> spec_external_id (asc ''generate'') (asc ''a:b'') = asc ''generate-ab''
   \<and> asc ''generate-a-b'' \<noteq> asc ''generate-ab''"
  by (simp add: enqueueSeoJob_def getRedisUrl_def asc_def kind_or_default_def safeBullId_def
      trim_def or_empty_def isWhiteSpace_def Let_def spec_external_id_def strip_colons_def)

text \<open>
  C8 (amended): whenever \<open>enqueueSeoJob\<close> reaches the broker (the Redis URL is set and
  the job id is non-empty after trimming), the external id is
  \<open>safeBullId(kind) + "-" + safeBullId(jobId)\<close>, where \<open>safeBullId\<close> trims its input and
  replaces every colon by a hyphen; the id contains no colon, and \<open>removeSeoQueueJob\<close>
  hands the same id to \<open>queue.remove\<close>.
\<close>

theorem enqueue_external_id:
  assumes "getRedisUrl env_url = Inr url" and "trim (or_empty jobId) \<noteq> []"
  shows "\<exists>req. enqueueSeoJob env_url jobId kind = Inr req
     \<and> opt_jobId req = safeBullId (Some (kind_or_default kind)) @ asc ''-'' @ safeBullId jobId
     \<and> 58 \<notin> set (opt_jobId req)
     \<and> removeSeoQueueJob env_url jobId kind = RemoveIssued (opt_jobId req)"
proof -
  have j: "safeBullId (Some (trim (or_empty jobId))) = safeBullId jobId"
    by (simp add: safeBullId_def or_empty_def trim_idem)
  show ?thesis
    using assms
    by (simp add: enqueueSeoJob_def removeSeoQueueJob_def Let_def j safeBullId_no_colon asc_hyphen)
qed

text \<open>The amended C8 at job id \<open>j:1\<close> with the kind omitted.\<close>

theorem enqueue_external_id_witness:
  "getRedisUrl (Some (asc ''redis://h'')) = Inr (asc ''redis://h'')
   \<and> trim (or_empty (Some (asc ''j:1''))) \<noteq> []
   \<and> (\<exists>req. enqueueSeoJob (Some (asc ''redis://h'')) (Some (asc ''j:1'')) None = Inr req
     \<and> opt_jobId req = asc ''generate-j-1''
     \<and> 58 \<notin> set (opt_jobId req)
     \<and> removeSeoQueueJob (Some (asc ''redis://h'')) (Some (asc ''j:1'')) None
         = RemoveIssued (opt_jobId req))"
proof -
  have a: "getRedisUrl (Some (asc ''redis://h'')) = Inr (asc ''redis://h'')"
    by (simp add: getRedisUrl_def asc_def)
  have b: "trim (or_empty (Some (asc ''j:1''))) \<noteq> []"
    by (simp add: trim_def or_empty_def asc_def isWhiteSpace_def)
  have c: "safeBullId (Some (kind_or_default None)) @ asc ''-'' @ safeBullId (Some (asc ''j:1''))
      = asc ''generate-j-1''"
    by (simp add: safeBullId_def kind_or_default_def trim_def or_empty_def asc_def isWhiteSpace_def)
  from enqueue_external_id [OF a b, of None] c a b show ?thesis by auto
qed

section \<open>Cost pacing\<close>










section \<open>Failure classifier\<close>

text \<open>
  C4, as stated, at status 401: the classification is permanent, but the user message is
  \<open>OpenAI API key is invalid or missing.\<close>, not \<open>authentication failed\<close>.
\<close>

theorem classify_counterexample:
  "userMessage (classifyOpenAiFailure (Some 401) None None)
     = asc ''OpenAI API key is invalid or missing.''
   \<and> asc ''OpenAI API key is invalid or missing.'' \<noteq> asc ''authentication failed''"
  by (simp add: classifyOpenAiFailure_def Let_def asc_def)

text \<open>
  C4 (amended): with the first match winning, status 401 or 403 is permanent with the user
  message \<open>OpenAI API key is invalid or missing.\<close>; 429 is transient; 400 with a message
  matching \<open>/context length|max.*tokens|too long/i\<close> is permanent with the user message
  \<open>Input is too long for the model.\<close>; every other status from 400 to 499 is permanent;
  every status from 500 on is transient; and without a status (or with one below 400) an
  abort (error name \<open>AbortError\<close>, or \<open>aborted\<close> in the message) and a network error
  (\<open>ECONNRESET\<close>, \<open>ENOTFOUND\<close>, \<open>EAI_AGAIN\<close>, \<open>ETIMEDOUT\<close> or \<open>network\<close> in the
  message) are transient.
\<close>

theorem classify_rules:
  "(status = Some 401 \<or> status = Some 403 \<longrightarrow>
       classifyOpenAiFailure status message name
         = \<lparr> isTransient = False, userMessage = asc ''OpenAI API key is invalid or missing.'' \<rparr>)
   \<and> (status = Some 429 \<longrightarrow> isTransient (classifyOpenAiFailure status message name))
   \<and> (status = Some 400 \<and> too_long_message message \<longrightarrow>
       classifyOpenAiFailure status message name
         = \<lparr> isTransient = False, userMessage = asc ''Input is too long for the model.'' \<rparr>)
   \<and> (\<forall>n. status = Some n \<and> 400 \<le> n \<and> n < 500 \<and> n \<noteq> 429 \<longrightarrow>
         \<not> isTransient (classifyOpenAiFailure status message name))
   \<and> (\<forall>n. status = Some n \<and> 500 \<le> n \<longrightarrow>
         isTransient (classifyOpenAiFailure status message name))
   \<and> ((status = None \<or> (\<exists>n. status = Some n \<and> n < 400))
        \<and> (isAbort_of message name \<or> isNetwork_of message) \<longrightarrow>
         isTransient (classifyOpenAiFailure status message name))"
  by (auto simp: classifyOpenAiFailure_def Let_def truthy_status_def split: option.splits)

text \<open>The amended C4 at the statuses 403, 429, 400 (with a context-length message), 404
  and 503, and at a connection reset and an abort without status.\<close>

theorem classify_rules_witness:
  "classifyOpenAiFailure (Some 403) None None
     = \<lparr> isTransient = False, userMessage = asc ''OpenAI API key is invalid or missing.'' \<rparr>
   \<and> isTransient (classifyOpenAiFailure (Some 429) None None)
   \<and> too_long_message (Some (asc ''maximum context length is 4097 tokens''))
   \<and> classifyOpenAiFailure (Some 400) (Some (asc ''maximum context length is 4097 tokens'')) None
     = \<lparr> isTransient = False, userMessage = asc ''Input is too long for the model.'' \<rparr>
   \<and> \<not> isTransient (classifyOpenAiFailure (Some 404) None None)
   \<and> isTransient (classifyOpenAiFailure (Some 503) None None)
   \<and> isNetwork_of (Some (asc ''read ECONNRESET''))
   \<and> isTransient (classifyOpenAiFailure None (Some (asc ''read ECONNRESET'')) None)
   \<and> isAbort_of None (Some (asc ''AbortError''))
   \<and> isTransient (classifyOpenAiFailure None None (Some (asc ''AbortError'')))"
proof -
  have t: "too_long_message (Some (asc ''maximum context length is 4097 tokens''))"
    by (simp add: too_long_message_def or_empty_def asc_def upper_ascii_def Let_def)
  have n: "isNetwork_of (Some (asc ''read ECONNRESET''))"
    by (simp add: isNetwork_of_def or_empty_def asc_def upper_ascii_def Let_def)
  have a: "isAbort_of None (Some (asc ''AbortError''))"
    by (simp add: isAbort_of_def)
  from classify_rules [of "Some 403" None None]
    classify_rules [of "Some 429" None None]
    classify_rules [of "Some 400" "Some (asc ''maximum context length is 4097 tokens'')" None]
    classify_rules [of "Some 404" None None]
    classify_rules [of "Some 503" None None]
    classify_rules [of None "Some (asc ''read ECONNRESET'')" None]
    classify_rules [of None None "Some (asc ''AbortError'')"]
    t n a
  show ?thesis by simp
qed

section \<open>Usage reservation\<close>

lemma reserve_tx_result:
  assumes "0 < n"
  shows "reserve_tx db shop month n lmt =
     (if used_of db (shop, month) + n > lmt
      then (\<lparr> res_ok = False, res_code = asc ''FREE_LIMIT_EXCEEDED'', res_month = month,
               res_used = used_of db (shop, month), res_limit = lmt,
               res_remaining = max 0 (lmt - used_of db (shop, month)) \<rparr>,
            db((shop, month) \<mapsto> used_of db (shop, month)))
      else (\<lparr> res_ok = True, res_code = asc ''OK'', res_month = month,
               res_used = used_of db (shop, month) + n, res_limit = lmt,
               res_remaining = lmt - (used_of db (shop, month) + n) \<rparr>,
            db((shop, month) \<mapsto> used_of db (shop, month) + n)))"
  by (auto simp: reserve_tx_def used_of_def Let_def fun_upd_idem split: option.splits)

lemma loop_commit:
  "attempt \<le> 3 \<Longrightarrow> fate attempt = Commit \<Longrightarrow>
   reserve_loop fate db shop month n lmt attempt
     = (case reserve_tx db shop month n lmt of (r, db') \<Rightarrow> (Inr r, db'))"
  by (subst reserve_loop.simps) (simp add: MAX_RETRIES_def)

lemma loop_retry:
  "attempt < 3 \<Longrightarrow> fate attempt = Throws m \<Longrightarrow> shouldRetry m \<Longrightarrow>
   reserve_loop fate db shop month n lmt attempt
     = reserve_loop fate db shop month n lmt (attempt + 1)"
  by (subst reserve_loop.simps) (simp add: MAX_RETRIES_def)

lemma reserve_loop_commit:
  assumes "k \<in> {1, 2, 3}" and "fate k = Commit"
    and "\<forall>j. 1 \<le> j \<and> j < k \<longrightarrow> (\<exists>m. fate j = Throws m \<and> shouldRetry m)"
  shows "reserve_loop fate db shop month n lmt 1
     = (case reserve_tx db shop month n lmt of (r, db') \<Rightarrow> (Inr r, db'))"
proof -
  have e1: "(1::nat) + 1 = 2" and e2: "(2::nat) + 1 = 3" by simp_all
  from assms(1) consider "k = 1" | "k = 2" | "k = 3" by auto
  then show ?thesis
  proof cases
    case 1
    show ?thesis by (rule loop_commit) (use 1 assms(2) in simp_all)
  next
    case 2
    with assms(3) obtain m where m: "fate 1 = Throws m" "shouldRetry m" by auto
    have a: "reserve_loop fate db shop month n lmt 1 = reserve_loop fate db shop month n lmt (1 + 1)"
      by (rule loop_retry [where fate = fate and attempt = 1, OF _ m]) simp
    have b: "reserve_loop fate db shop month n lmt 2
        = (case reserve_tx db shop month n lmt of (r, db') \<Rightarrow> (Inr r, db'))"
      by (rule loop_commit) (use 2 assms(2) in simp_all)
    show ?thesis by (simp only: a e1 b)
  next
    case 3
    with assms(3) obtain m where m: "fate 1 = Throws m" "shouldRetry m" by auto
    from 3 assms(3) have "\<exists>m. fate 2 = Throws m \<and> shouldRetry m" by simp
    then obtain m2 where m2: "fate 2 = Throws m2" "shouldRetry m2" by blast
    have a: "reserve_loop fate db shop month n lmt 1 = reserve_loop fate db shop month n lmt (1 + 1)"
      by (rule loop_retry [where fate = fate and attempt = 1, OF _ m]) simp
    have b: "reserve_loop fate db shop month n lmt 2 = reserve_loop fate db shop month n lmt (2 + 1)"
      by (rule loop_retry [where fate = fate and attempt = 2, OF _ m2]) simp
    have c: "reserve_loop fate db shop month n lmt 3
        = (case reserve_tx db shop month n lmt of (r, db') \<Rightarrow> (Inr r, db'))"
      by (rule loop_commit) (use 3 assms(2) in simp_all)
    show ?thesis by (simp only: a e1 b e2 c)
  qed
qed

text \<open>
  C2, as stated, at a request of 0 items against a counter at 3 and a limit of 10: the call
  returns at once with \<open>used = 0\<close> and \<open>remaining = 10\<close> and does not read the counter,
  where the claim gives the updated \<open>used = 3\<close> and \<open>remaining = 7\<close>. And at a request
  of 5 items against a counter at 8: the refusal carries the code \<open>FREE_LIMIT_EXCEEDED\<close>,
  not \<open>LimitExceeded\<close>.
\<close>

theorem reserve_counterexample:
  "reserveFreeUsageMonthly (\<lambda>n. Commit) [(asc ''s'', asc ''2026-01'') \<mapsto> 3] (asc ''s'') (asc ''2026-01'') 0 (Some 10)
     = (Inr \<lparr> res_ok = True, res_code = asc ''OK'', res_month = asc ''2026-01'',
               res_used = 0, res_limit = 10, res_remaining = 10 \<rparr>,
        [(asc ''s'', asc ''2026-01'') \<mapsto> 3])
   \<and> map_sum id res_code (fst (reserveFreeUsageMonthly (\<lambda>n. Commit) [(asc ''s'', asc ''2026-01'') \<mapsto> 8]
         (asc ''s'') (asc ''2026-01'') 5 (Some 10))) = Inr (asc ''FREE_LIMIT_EXCEEDED'')
   \<and> asc ''FREE_LIMIT_EXCEEDED'' \<noteq> asc ''LimitExceeded''"
  by (simp add: reserveFreeUsageMonthly_def Let_def loop_commit [where attempt = 1] reserve_tx_def used_of_def asc_def del: One_nat_def)

text \<open>
  C2 (amended): for every shop and every request of \<open>n \<ge> 1\<close> items against the monthly
  limit \<open>L\<close> with the counter at \<open>used\<close> (0 when the row does not exist), when the
  transaction commits at the first, second or third attempt (the earlier attempts having
  failed with a retryable error): if \<open>used + n > L\<close> the call returns \<open>ok = false\<close> with
  the code \<open>FREE_LIMIT_EXCEEDED\<close> and the counter still reads \<open>used\<close>; otherwise the
  counter is set to \<open>used + n\<close> and the call returns \<open>ok = true\<close> with the updated
  \<open>used\<close> and \<open>remaining = L - (used + n)\<close>. No other counter changes.
\<close>

theorem reserve_or_reject:
  assumes "0 < n" and "k \<in> {1, 2, 3}" and "fate k = Commit"
    and "\<forall>j. 1 \<le> j \<and> j < k \<longrightarrow> (\<exists>m. fate j = Throws m \<and> shouldRetry m)"
  shows "\<exists>r db'. reserveFreeUsageMonthly fate db shop month n (Some L) = (Inr r, db')
     \<and> (\<forall>key. key \<noteq> (shop, month) \<longrightarrow> db' key = db key)
     \<and> (used_of db (shop, month) + n > L \<longrightarrow>
           \<not> res_ok r \<and> res_code r = asc ''FREE_LIMIT_EXCEEDED''
           \<and> used_of db' (shop, month) = used_of db (shop, month))
     \<and> (used_of db (shop, month) + n \<le> L \<longrightarrow>
           res_ok r \<and> db' (shop, month) = Some (used_of db (shop, month) + n)
           \<and> res_used r = used_of db (shop, month) + n
           \<and> res_remaining r = L - (used_of db (shop, month) + n))"
proof -
  have "reserveFreeUsageMonthly fate db shop month n (Some L)
      = (case reserve_tx db shop month n L of (r, db') \<Rightarrow> (Inr r, db'))"
    using assms(1) reserve_loop_commit [OF assms(2,3,4)]
    by (simp add: reserveFreeUsageMonthly_def Let_def)
  then show ?thesis
    using assms(1)
    by (auto simp: reserve_tx_result used_of_def)
qed

text \<open>The amended C2 at a counter of 8 and a limit of 10: a request of 5 is refused and
  the counter stays at 8; a request of 2, committed at the second attempt, is granted and
  the counter becomes 10.\<close>

theorem reserve_or_reject_witness:
  "(0::int) < 5 \<and> (1::nat) \<in> {1, 2, 3}
   \<and> (\<exists>r db'. reserveFreeUsageMonthly (\<lambda>n. Commit) [(asc ''s'', asc ''2026-01'') \<mapsto> 8]
            (asc ''s'') (asc ''2026-01'') 5 (Some 10) = (Inr r, db')
          \<and> \<not> res_ok r \<and> res_code r = asc ''FREE_LIMIT_EXCEEDED''
          \<and> used_of db' (asc ''s'', asc ''2026-01'') = 8)
   \<and> (0::int) < 2 \<and> (2::nat) \<in> {1, 2, 3}
   \<and> shouldRetry (asc ''could not serialize access'')
   \<and> (\<exists>r db'. reserveFreeUsageMonthly
            (\<lambda>n. if n = 2 then Commit else Throws (asc ''could not serialize access''))
            [(asc ''s'', asc ''2026-01'') \<mapsto> 8] (asc ''s'') (asc ''2026-01'') 2 (Some 10) = (Inr r, db')
          \<and> res_ok r \<and> db' (asc ''s'', asc ''2026-01'') = Some 10
          \<and> res_used r = 10 \<and> res_remaining r = 0)"
proof -
  have u: "used_of [(asc ''s'', asc ''2026-01'') \<mapsto> 8] (asc ''s'', asc ''2026-01'') = 8"
    by (simp add: used_of_def)
  have s: "shouldRetry (asc ''could not serialize access'')"
    by (simp add: shouldRetry_def asc_def)
  have a: "\<exists>r db'. reserveFreeUsageMonthly (\<lambda>n. Commit) [(asc ''s'', asc ''2026-01'') \<mapsto> 8]
            (asc ''s'') (asc ''2026-01'') 5 (Some 10) = (Inr r, db')
          \<and> \<not> res_ok r \<and> res_code r = asc ''FREE_LIMIT_EXCEEDED''
          \<and> used_of db' (asc ''s'', asc ''2026-01'') = 8"
    using reserve_or_reject [of 5 1 "\<lambda>n. Commit" "[(asc ''s'', asc ''2026-01'') \<mapsto> 8]"
        "asc ''s''" "asc ''2026-01''" 10]
    by (simp add: u) blast
  have b: "\<exists>r db'. reserveFreeUsageMonthly
            (\<lambda>n. if n = 2 then Commit else Throws (asc ''could not serialize access''))
            [(asc ''s'', asc ''2026-01'') \<mapsto> 8] (asc ''s'') (asc ''2026-01'') 2 (Some 10) = (Inr r, db')
          \<and> res_ok r \<and> db' (asc ''s'', asc ''2026-01'') = Some 10
          \<and> res_used r = 10 \<and> res_remaining r = 0"
    using reserve_or_reject [of 2 2
        "\<lambda>n. if n = 2 then Commit else Throws (asc ''could not serialize access'')"
        "[(asc ''s'', asc ''2026-01'') \<mapsto> 8]" "asc ''s''" "asc ''2026-01''" 10] s
    by (simp add: u) blast
  from a b s show ?thesis by simp
qed

section \<open>SEO writers\<close>

lemma tag_keys:
  "mf_key (title_tag ow v) = asc ''title_tag''" "mf_key (description_tag ow v) = asc ''description_tag''"
  "mf_value (title_tag ow v) = v" "mf_value (description_tag ow v) = v"
  "asc ''title_tag'' \<noteq> asc ''description_tag''" "asc ''description_tag'' \<noteq> asc ''title_tag''"
  by (simp_all add: title_tag_def description_tag_def asc_def)

lemma product_metafields_entry:
  assumes "m \<in> set (product_metafields ident t d mt md p)"
  shows "mf_value m \<noteq> []
     \<and> (mf_key m = asc ''title_tag'' \<longrightarrow>
          mt \<and> (mf_value m = trim (or_empty t)
                \<or> (trim (or_empty t) = [] \<and> mf_value m = field_of p p_seo_title)))
     \<and> (mf_key m = asc ''description_tag'' \<longrightarrow>
          md \<and> (mf_value m = trim (or_empty d)
                \<or> (trim (or_empty d) = [] \<and> mf_value m = field_of p p_seo_description)))"
  using assms
  by (auto simp: product_metafields_def Let_def tag_keys split: if_splits)

lemma article_metafields_entry:
  assumes "m \<in> set (article_metafields ow t d mt md live)"
  shows "mf_value m \<noteq> []
     \<and> (mf_key m = asc ''title_tag'' \<longrightarrow>
          mt \<and> (mf_value m = trim (or_empty t)
                \<or> (trim (or_empty t) = [] \<and> mf_value m = field_of live a_titleTag)))
     \<and> (mf_key m = asc ''description_tag'' \<longrightarrow>
          md \<and> (mf_value m = trim (or_empty d)
                \<or> (trim (or_empty d) = [] \<and> mf_value m = field_of live a_descriptionTag)))"
  using assms
  by (auto simp: article_metafields_def Let_def tag_keys split: if_splits)

text \<open>Every payload the loop sends is a staged, non-empty list.\<close>

lemma article_loop_sent:
  "P \<in> set (fst (article_loop mutate stage allc cands)) \<Longrightarrow> P \<noteq> [] \<and> (\<exists>ow \<in> set cands. P = stage ow)"
proof (induction cands)
  case Nil
  then show ?case by simp
next
  case (Cons c cs)
  then show ?case
    by (auto simp: Let_def split: if_splits sum.splits prod.splits)
qed

lemma product_sent:
  "P \<in> set (fst (updateProductSeo rd mutate ident t d mt md)) \<Longrightarrow>
     P \<noteq> [] \<and> (\<exists>p. rd = Inr p \<and> P = product_metafields ident t d mt md p)"
  by (auto simp: updateProductSeo_def Let_def split: sum.splits if_splits)


text \<open>
  C6: every \<open>metafieldsSet\<close> payload sent by \<open>updateProductSeo\<close> or by
  \<open>updateArticleSeoMetafields\<close> is non-empty and is the staged list; every entry of it has
  a non-empty value, belongs to a field the job is configured to write, and carries the
  generated value after trimming or, when that is empty, a non-empty live value
  (backfill); and when nothing is staged no mutation is sent.
\<close>

theorem writers_never_write_empty:
  "(\<forall>P \<in> set (fst (updateProductSeo rd mutate ident t d mt md)).
       P \<noteq> [] \<and> (\<exists>p. rd = Inr p \<and> P = product_metafields ident t d mt md p
          \<and> (\<forall>m \<in> set P. staged_as_configured m t d mt md
                 (field_of p p_seo_title) (field_of p p_seo_description))))
   \<and> (\<forall>p. rd = Inr p \<and> product_metafields ident t d mt md p = [] \<longrightarrow>
         updateProductSeo rd mutate ident t d mt md = ([], Inr ()))
   \<and> (\<forall>P \<in> set (fst (updateArticleSeoMetafields ard mutate aid t d mt md)).
       P \<noteq> [] \<and> (\<forall>m \<in> set P. staged_as_configured m t d mt md
                 (field_of (case ard of Inl e \<Rightarrow> None | Inr a \<Rightarrow> a) a_titleTag)
                 (field_of (case ard of Inl e \<Rightarrow> None | Inr a \<Rightarrow> a) a_descriptionTag)))
   \<and> ((\<forall>ow. article_metafields ow t d mt md (case ard of Inl e \<Rightarrow> None | Inr a \<Rightarrow> a) = []) \<longrightarrow>
         fst (updateArticleSeoMetafields ard mutate aid t d mt md) = [])"
proof -
  let ?live = "case ard of Inl e \<Rightarrow> None | Inr a \<Rightarrow> a"
  have A: "\<forall>P \<in> set (fst (updateProductSeo rd mutate ident t d mt md)).
       P \<noteq> [] \<and> (\<exists>p. rd = Inr p \<and> P = product_metafields ident t d mt md p
          \<and> (\<forall>m \<in> set P. staged_as_configured m t d mt md
                 (field_of p p_seo_title) (field_of p p_seo_description)))"
  proof
    fix P assume P: "P \<in> set (fst (updateProductSeo rd mutate ident t d mt md))"
    from product_sent [OF P] obtain p where ne: "P \<noteq> []" and rd: "rd = Inr p"
      and eq: "P = product_metafields ident t d mt md p" by blast
    have "\<forall>m \<in> set P. staged_as_configured m t d mt md
        (field_of p p_seo_title) (field_of p p_seo_description)"
      unfolding eq staged_as_configured_def using product_metafields_entry by blast
    with ne rd eq
    show "P \<noteq> [] \<and> (\<exists>p. rd = Inr p \<and> P = product_metafields ident t d mt md p
          \<and> (\<forall>m \<in> set P. staged_as_configured m t d mt md
                 (field_of p p_seo_title) (field_of p p_seo_description)))"
      by blast
  qed
  have B: "\<forall>p. rd = Inr p \<and> product_metafields ident t d mt md p = [] \<longrightarrow>
         updateProductSeo rd mutate ident t d mt md = ([], Inr ())"
    by (simp add: updateProductSeo_def)
  have sent: "P \<noteq> [] \<and> (\<exists>ow. P = article_metafields ow t d mt md ?live)"
    if "P \<in> set (fst (updateArticleSeoMetafields ard mutate aid t d mt md))" for P
  proof -
    from that have "P \<in> set (fst (article_loop mutate
        (\<lambda>ow. article_metafields ow t d mt md ?live)
        (ownerIdCandidatesForArticle aid) (ownerIdCandidatesForArticle aid)))"
      by (simp add: updateArticleSeoMetafields_def Let_def)
    from article_loop_sent [OF this] show ?thesis by blast
  qed
  have C: "\<forall>P \<in> set (fst (updateArticleSeoMetafields ard mutate aid t d mt md)).
       P \<noteq> [] \<and> (\<forall>m \<in> set P. staged_as_configured m t d mt md
                 (field_of ?live a_titleTag) (field_of ?live a_descriptionTag))"
  proof
    fix P assume "P \<in> set (fst (updateArticleSeoMetafields ard mutate aid t d mt md))"
    from sent [OF this] obtain ow where ne: "P \<noteq> []"
      and eq: "P = article_metafields ow t d mt md ?live" by blast
    have "\<forall>m \<in> set P. staged_as_configured m t d mt md
        (field_of ?live a_titleTag) (field_of ?live a_descriptionTag)"
      unfolding eq staged_as_configured_def using article_metafields_entry by blast
    with ne show "P \<noteq> [] \<and> (\<forall>m \<in> set P. staged_as_configured m t d mt md
                 (field_of ?live a_titleTag) (field_of ?live a_descriptionTag))"
      by blast
  qed
  have D: "(\<forall>ow. article_metafields ow t d mt md ?live = []) \<longrightarrow>
         fst (updateArticleSeoMetafields ard mutate aid t d mt md) = []"
  proof
    assume none: "\<forall>ow. article_metafields ow t d mt md ?live = []"
    have "set (fst (updateArticleSeoMetafields ard mutate aid t d mt md)) = {}"
      using sent none by fastforce
    then show "fst (updateArticleSeoMetafields ard mutate aid t d mt md) = []" by simp
  qed
  from A B C D show ?thesis by (intro conjI)
qed

text \<open>C6 at a product whose generated description is blank (the live description is
  backfilled beside the new title), and at an article with a title only, whose first
  owner id is answered with \<open>Invalid id\<close>.\<close>

theorem writers_never_write_empty_witness:
  "[title_tag (asc ''P1'') (asc ''New''), description_tag (asc ''P1'') (asc ''Old D'')]
     \<in> set (fst (updateProductSeo (Inr (Some \<lparr> p_titleTag = None, p_descriptionTag = None,
              p_seo_title = Some (asc ''Old T''), p_seo_description = Some (asc ''Old D'') \<rparr>))
            (\<lambda>P. Inr []) (asc ''P1'') (Some (asc '' New '')) (Some (asc ''  '')) True True))
   \<and> [] \<notin> set (map mf_value
         [title_tag (asc ''P1'') (asc ''New''), description_tag (asc ''P1'') (asc ''Old D'')])
   \<and> [title_tag (asc ''gid://shopify/Article/12'') (asc ''T'')]
     \<in> set (fst (updateArticleSeoMetafields (Inl (asc ''down''))
            (\<lambda>P. if mf_ownerId (hd P) = asc ''12'' then Inl (asc ''Invalid id: 12'') else Inr [])
            (Some (asc ''12'')) (Some (asc ''T'')) None True True))
   \<and> [] \<notin> set (map mf_value [title_tag (asc ''gid://shopify/Article/12'') (asc ''T'')])"
proof -
  let ?rd = "Inr (Some \<lparr> p_titleTag = None, p_descriptionTag = None,
              p_seo_title = Some (asc ''Old T''), p_seo_description = Some (asc ''Old D'') \<rparr>)
            :: jstring + product_read option"
  let ?mut = "(\<lambda>P. if mf_ownerId (hd P) = asc ''12'' then Inl (asc ''Invalid id: 12'') else Inr [])
            :: mutate_fn"
  let ?P = "[title_tag (asc ''P1'') (asc ''New''), description_tag (asc ''P1'') (asc ''Old D'')]"
  let ?A = "[title_tag (asc ''gid://shopify/Article/12'') (asc ''T'')]"
  have w1: "fst (updateProductSeo ?rd (\<lambda>P. Inr []) (asc ''P1'') (Some (asc '' New ''))
              (Some (asc ''  '')) True True) = [?P]"
    by (simp add: updateProductSeo_def product_metafields_def field_of_def or_empty_def trim_def
        isWhiteSpace_def asc_def Let_def title_tag_def description_tag_def)
  have w2: "fst (updateArticleSeoMetafields (Inl (asc ''down'')) ?mut
              (Some (asc ''12'')) (Some (asc ''T'')) None True True)
      = [[title_tag (asc ''12'') (asc ''T'')], ?A]"
    by (simp add: updateArticleSeoMetafields_def ownerIdCandidatesForArticle_def
        normalizeArticleOwnerId_def article_metafields_def field_of_def or_empty_def trim_def
        all_digits_def article_prefix_def online_store_article_prefix_def invalid_id_def
        upper_ascii_def isWhiteSpace_def asc_def Let_def title_tag_def description_tag_def)
  have p: "?P \<in> set (fst (updateProductSeo ?rd (\<lambda>P. Inr []) (asc ''P1'') (Some (asc '' New ''))
              (Some (asc ''  '')) True True))"
    by (simp only: w1) simp
  have a: "?A \<in> set (fst (updateArticleSeoMetafields (Inl (asc ''down'')) ?mut
              (Some (asc ''12'')) (Some (asc ''T'')) None True True))"
    by (simp only: w2) simp
  from writers_never_write_empty [where rd = ?rd and mutate = "\<lambda>P. Inr []" and ident = "asc ''P1''"
      and t = "Some (asc '' New '')" and d = "Some (asc ''  '')" and mt = True and md = True] p
  have pv: "\<forall>m \<in> set ?P. mf_value m \<noteq> []"
    unfolding staged_as_configured_def by blast
  from writers_never_write_empty [where ard = "Inl (asc ''down'')" and mutate = ?mut
      and aid = "Some (asc ''12'')" and t = "Some (asc ''T'')" and d = None and mt = True and md = True] a
  have av: "\<forall>m \<in> set ?A. mf_value m \<noteq> []"
    unfolding staged_as_configured_def by blast
  from pv have pv': "[] \<notin> set (map mf_value ?P)" by auto
  from av have av': "[] \<notin> set (map mf_value ?A)" by auto
  from p pv' a av' show ?thesis by blast
qed

section \<open>Stuck-job recovery\<close>

text \<open>The rows of a table after one recovery, and after the whole loop.\<close>

lemma jobs_recover_job:
  "jobs (recover_job minutes now job db) =
     map (\<lambda>j. if j_id j = j_id job
               then j\<lparr> j_status := failed, j_finishedAt := Some now,
                       j_publishFinishedAt := (if j_phase job = Some publishing then Some now
                                               else j_publishFinishedAt job),
                       j_lastError := Some (recover_msg minutes), j_lockOwner := None,
                       j_lockExpiresAt := None \<rparr>
               else j) (jobs db)"
  by (cases "j_phase job") (auto simp: recover_job_def update_job_def update_items_def Let_def)

lemma items_recover_job:
  "items (recover_job minutes now job db) =
     map (\<lambda>i. if i_jobId i = j_id job
               then (if j_phase job = Some publishing
                     then (if i_publishStatus i = Some running
                           then i\<lparr> i_publishStatus := Some failed,
                                   i_publishError := Some (recover_msg minutes) \<rparr>
                           else i)
                     else (if i_status i = running
                           then i\<lparr> i_status := failed, i_finishedAt := Some now,
                                   i_error := Some (recover_msg minutes) \<rparr>
                           else i))
               else i) (items db)"
  by (cases "j_phase job") (auto simp: recover_job_def update_job_def update_items_def Let_def)

lemma fold_rows:
  assumes "\<And>a db. sel (step a db) = map (upd a) (sel db)"
  shows "sel (fold step js db) = map (\<lambda>x. fold upd js x) (sel db)"
proof (induction js arbitrary: db)
  case Nil
  show ?case by simp
next
  case (Cons a js)
  show ?case by (simp add: Cons.IH assms)
qed

lemma fold_no_match:
  assumes "\<forall>a \<in> set js. key a \<noteq> k" and "rk x = k"
  shows "fold (\<lambda>a x. if rk x = key a then f a x else x) js x = x"
  using assms by (induction js) auto

lemma fold_one_match:
  assumes "distinct (map key js)" and "job \<in> set js" and "rk x = key job"
    and "\<And>a y. rk (f a y) = rk y"
  shows "fold (\<lambda>a x. if rk x = key a then f a x else x) js x = f job x"
  using assms(1,2,3)
proof (induction js arbitrary: x)
  case Nil
  then show ?case by simp
next
  case (Cons a js)
  show ?case
  proof (cases "a = job")
    case True
    from Cons.prems(1) True have "key job \<notin> key ` set js" by simp
    then have "\<forall>b \<in> set js. key b \<noteq> key job" by (metis imageI)
    moreover have "rk (f job x) = key job" using Cons.prems(3) assms(4) by simp
    ultimately have "fold (\<lambda>a x. if rk x = key a then f a x else x) js (f job x) = f job x"
      by (rule fold_no_match)
    with True Cons.prems(3) show ?thesis by simp
  next
    case False
    with Cons.prems have in_js: "job \<in> set js" and ne: "key a \<noteq> key job" by auto
    from Cons.prems(1) have d: "distinct (map key js)" by simp
    from ne Cons.prems(3) have "rk x \<noteq> key a" by simp
    then show ?thesis using Cons.IH [OF d in_js Cons.prems(3)] by simp
  qed
qed

lemma stuck_jobs_distinct:
  assumes "distinct (map j_id (jobs db))"
  shows "distinct (map j_id (stuck_jobs minutes now db))"
proof -
  have "distinct (map j_id (filter (is_stuck minutes now) (jobs db)))"
    using assms by (rule distinct_map_filter)
  then have "distinct (map j_id (sort_key j_createdAt (filter (is_stuck minutes now) (jobs db))))"
    by (metis distinct_map distinct_sort set_sort inj_on_def)
  then show ?thesis
    by (simp add: stuck_jobs_def take_map [symmetric] distinct_take del: take_map)
qed

lemma stuck_jobs_set:
  "job \<in> set (stuck_jobs minutes now db) \<Longrightarrow> job \<in> set (jobs db) \<and> is_stuck minutes now job"
  by (auto simp: stuck_jobs_def dest: in_set_takeD)


text \<open>
  C5, as stated, with the default of 10 minutes: the reason written by the recovery is
  \<open>Recovered stuck job (no heartbeat for >= 10m)\<close>, which is not the string of the claim.
\<close>

theorem recover_msg_counterexample:
  "recover_msg 10 = asc ''Recovered stuck job (no heartbeat for >= 10m)''
   \<and> recover_msg 10 \<noteq> spec_recover_msg"
  by (simp add: recover_msg_def spec_recover_msg_def asc_def)

text \<open>
  C5 (amended): for every job selected by the stuck-job scan (so running, with an expired
  lease), on a table with unique job ids, recovery marks the items of the job that are
  running in its current phase as failed with the reason
  \<open>Recovered stuck job (no heartbeat for >= Nm)\<close>, \<open>N\<close> being the configured number of
  minutes: during publishing only \<open>publishStatus\<close> and \<open>publishError\<close> change, otherwise
  only \<open>status\<close>, \<open>finishedAt\<close> and \<open>error\<close>; every other item of the job is left as it
  was. The job row gets the status failed, \<open>finishedAt = now\<close>, during publishing also
  \<open>publishFinishedAt = now\<close>, \<open>lastError\<close> equal to the reason, and a cleared lease
  (\<open>lockOwner\<close> and \<open>lockExpiresAt\<close> null); its other columns are unchanged.
\<close>

theorem recover_stuck_job:
  assumes "distinct (map j_id (jobs db))" and "job \<in> set (stuck_jobs minutes now db)"
  shows "job \<in> set (jobs db) \<and> j_status job = running \<and> not_null_lt (j_lockExpiresAt job) now
   \<and> length (jobs (recoverStuckJobs minutes now db)) = length (jobs db)
   \<and> (\<forall>k < length (jobs db). jobs db ! k = job \<longrightarrow>
         jobs (recoverStuckJobs minutes now db) ! k
           = job\<lparr> j_status := failed, j_finishedAt := Some now,
                   j_publishFinishedAt := (if j_phase job = Some publishing then Some now
                                           else j_publishFinishedAt job),
                   j_lastError := Some (recover_msg minutes), j_lockOwner := None,
                   j_lockExpiresAt := None \<rparr>)
   \<and> length (items (recoverStuckJobs minutes now db)) = length (items db)
   \<and> (\<forall>k < length (items db). i_jobId (items db ! k) = j_id job \<longrightarrow>
         items (recoverStuckJobs minutes now db) ! k
           = (if j_phase job = Some publishing
              then (if i_publishStatus (items db ! k) = Some running
                    then (items db ! k)\<lparr> i_publishStatus := Some failed,
                                          i_publishError := Some (recover_msg minutes) \<rparr>
                    else items db ! k)
              else (if i_status (items db ! k) = running
                    then (items db ! k)\<lparr> i_status := failed, i_finishedAt := Some now,
                                          i_error := Some (recover_msg minutes) \<rparr>
                    else items db ! k)))"
proof -
  let ?js = "stuck_jobs minutes now db"
  let ?JU = "\<lambda>a j. j\<lparr> j_status := failed, j_finishedAt := Some now,
                       j_publishFinishedAt := (if j_phase a = Some publishing then Some now
                                               else j_publishFinishedAt a),
                       j_lastError := Some (recover_msg minutes), j_lockOwner := None,
                       j_lockExpiresAt := None \<rparr>"
  let ?IU = "\<lambda>a i. if j_phase a = Some publishing
                     then (if i_publishStatus i = Some running
                           then i\<lparr> i_publishStatus := Some failed,
                                   i_publishError := Some (recover_msg minutes) \<rparr>
                           else i)
                     else (if i_status i = running
                           then i\<lparr> i_status := failed, i_finishedAt := Some now,
                                   i_error := Some (recover_msg minutes) \<rparr>
                           else i)"
  have d: "distinct (map j_id ?js)"
    using assms(1) by (rule stuck_jobs_distinct)
  from stuck_jobs_set [OF assms(2)] have mem: "job \<in> set (jobs db)"
    and stuck: "is_stuck minutes now job" by simp_all
  have J: "jobs (recoverStuckJobs minutes now db)
      = map (\<lambda>x. fold (\<lambda>a j. if j_id j = j_id a then ?JU a j else j) ?js x) (jobs db)"
    unfolding recoverStuckJobs_def
    by (rule fold_rows [where sel = jobs and step = "recover_job minutes now"
          and upd = "\<lambda>a j. if j_id j = j_id a then ?JU a j else j"])
       (rule jobs_recover_job)
  have I: "items (recoverStuckJobs minutes now db)
      = map (\<lambda>x. fold (\<lambda>a i. if i_jobId i = j_id a then ?IU a i else i) ?js x) (items db)"
    unfolding recoverStuckJobs_def
    by (rule fold_rows [where sel = items and step = "recover_job minutes now"
          and upd = "\<lambda>a i. if i_jobId i = j_id a then ?IU a i else i"])
       (rule items_recover_job)
  have JJ: "fold (\<lambda>a j. if j_id j = j_id a then ?JU a j else j) ?js job = ?JU job job"
    by (rule fold_one_match [where key = j_id and rk = j_id and f = ?JU, OF d assms(2)]) simp_all
  have II: "fold (\<lambda>a i. if i_jobId i = j_id a then ?IU a i else i) ?js i = ?IU job i"
    if "i_jobId i = j_id job" for i
    by (rule fold_one_match [where key = j_id and rk = i_jobId and f = ?IU, OF d assms(2) that]) simp
  have c1: "j_status job = running \<and> not_null_lt (j_lockExpiresAt job) now"
    using stuck by (simp add: is_stuck_def Let_def)
  have c2: "\<forall>k < length (jobs db). jobs db ! k = job \<longrightarrow>
         jobs (recoverStuckJobs minutes now db) ! k = ?JU job job"
    by (simp add: J JJ)
  have c3: "\<forall>k < length (items db). i_jobId (items db ! k) = j_id job \<longrightarrow>
         items (recoverStuckJobs minutes now db) ! k = ?IU job (items db ! k)"
    by (simp add: I II)
  have l1: "length (jobs (recoverStuckJobs minutes now db)) = length (jobs db)"
    by (simp add: J)
  have l2: "length (items (recoverStuckJobs minutes now db)) = length (items db)"
    by (simp add: I)
  from mem c1 l1 c2 l2 c3 show ?thesis by (intro conjI) simp_all
qed

text \<open>The amended C5 on the crashed job, in minute 11.\<close>

theorem recover_stuck_job_witness:
  "distinct (map j_id (jobs crashed_db))
   \<and> crashed_job \<in> set (stuck_jobs 10 660000 crashed_db)
   \<and> jobs (recoverStuckJobs 10 660000 crashed_db) ! 0
       = crashed_job\<lparr> j_status := failed, j_finishedAt := Some 660000,
           j_lastError := Some (asc ''Recovered stuck job (no heartbeat for >= 10m)''),
           j_lockOwner := None, j_lockExpiresAt := None \<rparr>
   \<and> items (recoverStuckJobs 10 660000 crashed_db) ! 0
       = crashed_item\<lparr> i_status := failed, i_finishedAt := Some 660000,
           i_error := Some (asc ''Recovered stuck job (no heartbeat for >= 10m)'') \<rparr>"
proof -
  have a: "distinct (map j_id (jobs crashed_db))"
    by (simp add: crashed_db_def)
  have b: "crashed_job \<in> set (stuck_jobs 10 660000 crashed_db)"
    by (simp add: stuck_jobs_def crashed_db_def is_stuck_def not_null_lt_def crashed_job_def Let_def)
  have m: "recover_msg 10 = asc ''Recovered stuck job (no heartbeat for >= 10m)''"
    by (simp add: recover_msg_def asc_def)
  have p: "j_phase crashed_job \<noteq> Some publishing" "j_publishFinishedAt crashed_job = None"
    "i_jobId crashed_item = j_id crashed_job" "i_status crashed_item = running"
    by (simp_all add: crashed_job_def crashed_item_def)
  have n: "jobs crashed_db ! 0 = crashed_job" "items crashed_db ! 0 = crashed_item"
    "(0::nat) < length (jobs crashed_db)" "(0::nat) < length (items crashed_db)"
    by (simp_all add: crashed_db_def)
  from recover_stuck_job [OF a b] n p
  have "jobs (recoverStuckJobs 10 660000 crashed_db) ! 0
       = crashed_job\<lparr> j_status := failed, j_finishedAt := Some 660000,
           j_publishFinishedAt := None,
           j_lastError := Some (recover_msg 10), j_lockOwner := None, j_lockExpiresAt := None \<rparr>"
    and "items (recoverStuckJobs 10 660000 crashed_db) ! 0
       = crashed_item\<lparr> i_status := failed, i_finishedAt := Some 660000,
           i_error := Some (recover_msg 10) \<rparr>"
    by auto
  then show ?thesis using a b m by (simp add: crashed_job_def)
qed

section \<open>Language guard and rewrite pass\<close>



section \<open>Generate phase\<close>

text \<open>The item rows after one round and after the loop.\<close>

lemma items_simps:
  "items (update_job ident f db) = items db"
  "items (touchLock now job db) = items db"
  "items (update_item i g db) = map (\<lambda>r. if i_id r = i then g r else r) (items db)"
  by (simp_all add: update_job_def touchLock_def update_item_def update_items_def)

lemma items_composite:
  "items (apply_telemetry n t job item db)
     = map (\<lambda>r. if i_id r = i_id item
                 then r\<lparr> i_genAttempts := i_genAttempts r + int (t_attempts t),
                         i_genRetryWaitMs := i_genRetryWaitMs r + int (t_retryWaitMs t),
                         i_error := (if n \<and> t_narration t \<noteq> None then t_narration t else i_error r) \<rparr>
                 else r) (items db)"
  "items (item_failed now job item msg db)
     = map (\<lambda>r. if i_id r = i_id item
                 then r\<lparr> i_status := failed, i_finishedAt := Some now, i_error := Some msg \<rparr>
                 else r) (items db)"
  "items (item_succeeded job item w db) = map (\<lambda>r. if i_id r = i_id item then w r else r) (items db)"
  by (simp_all add: apply_telemetry_def item_failed_def item_succeeded_def items_simps)

lemma generate_item_length:
  "length (items (generate_item now job e item db)) = length (items db)"
  by (simp add: generate_item_def Let_def items_simps items_composite split: sum.splits prod.splits)

lemma generate_item_other:
  assumes "k < length (items db)" and "i_id (items db ! k) \<noteq> i_id item"
  shows "items (generate_item now job e item db) ! k = items db ! k"
  using assms
  by (simp add: generate_item_def Let_def items_simps items_composite split: sum.splits prod.splits)

lemma generate_item_id:
  assumes "k < length (items db)"
  shows "i_id (items (generate_item now job e item db) ! k) = i_id (items db ! k)"
  using assms
  by (simp add: generate_item_def Let_def items_simps items_composite split: sum.splits prod.splits)

lemma generate_item_product_success:
  assumes "k < length (items db)" and "i_id (items db ! k) = i_id item"
    and "\<not> isImageJob job" and "\<not> isBlogJob job"
    and "e_fetched e = Inr f" and "e_seo e = Inr (t, d)"
  shows "i_status (items (generate_item now job e item db) ! k) = success
     \<and> i_seoTitle (items (generate_item now job e item db) ! k)
         = or_null (if j_metaTitle job then Some t else i_seoTitle item)
     \<and> i_seoDescription (items (generate_item now job e item db) ! k)
         = or_null (if j_metaDescription job then Some d else i_seoDescription item)"
  using assms
  by (simp add: generate_item_def Let_def items_simps items_composite)

lemma generate_loop_length:
  "length (items (snd (generate_loop now job env its db))) = length (items db)"
  by (induction its arbitrary: db) (simp_all add: generate_item_length)

lemma generate_loop_id:
  "k < length (items db) \<Longrightarrow> i_id (items (snd (generate_loop now job env its db)) ! k) = i_id (items db ! k)"
  by (induction its arbitrary: db) (simp_all add: generate_item_length generate_item_id)

lemma generate_loop_other:
  assumes "k < length (items db)" and "\<forall>x \<in> set its. i_id x \<noteq> i_id (items db ! k)"
  shows "items (snd (generate_loop now job env its db)) ! k = items db ! k"
  using assms
proof (induction its arbitrary: db)
  case Nil
  show ?case by simp
next
  case (Cons a its)
  show ?case
  proof (cases "e_cancelled (env (i_id a))")
    case True
    then show ?thesis by simp
  next
    case False
    let ?db = "generate_item now job (env (i_id a)) a db"
    from Cons.prems have ne: "i_id (items db ! k) \<noteq> i_id a" by auto
    have k: "k < length (items ?db)" using Cons.prems(1) by (simp add: generate_item_length)
    have same: "items ?db ! k = items db ! k"
      using Cons.prems(1) ne by (rule generate_item_other)
    have "\<forall>x \<in> set its. i_id x \<noteq> i_id (items ?db ! k)"
      using Cons.prems(2) same by simp
    from Cons.IH [OF k this] same False show ?thesis by simp
  qed
qed

lemma generate_loop_target:
  assumes "distinct (map i_id its)" and "item \<in> set its"
    and "\<forall>x \<in> set its. \<not> e_cancelled (env (i_id x))"
    and "k < length (items db)" and "i_id (items db ! k) = i_id item"
    and "\<not> isImageJob job" and "\<not> isBlogJob job"
    and "e_fetched (env (i_id item)) = Inr f" and "e_seo (env (i_id item)) = Inr (t, d)"
  shows "i_status (items (snd (generate_loop now job env its db)) ! k) = success
     \<and> i_seoTitle (items (snd (generate_loop now job env its db)) ! k)
         = or_null (if j_metaTitle job then Some t else i_seoTitle item)
     \<and> i_seoDescription (items (snd (generate_loop now job env its db)) ! k)
         = or_null (if j_metaDescription job then Some d else i_seoDescription item)"
  using assms(1-5)
proof (induction its arbitrary: db)
  case Nil
  then show ?case by simp
next
  case (Cons a its)
  let ?db = "generate_item now job (env (i_id a)) a db"
  have nc: "\<not> e_cancelled (env (i_id a))" using Cons.prems(3) by simp
  have k: "k < length (items ?db)" using Cons.prems(4) by (simp add: generate_item_length)
  show ?case
  proof (cases "a = item")
    case True
    have row: "i_status (items ?db ! k) = success
       \<and> i_seoTitle (items ?db ! k) = or_null (if j_metaTitle job then Some t else i_seoTitle item)
       \<and> i_seoDescription (items ?db ! k)
           = or_null (if j_metaDescription job then Some d else i_seoDescription item)"
      unfolding True
      by (rule generate_item_product_success [OF Cons.prems(4,5) assms(6,7,8,9)])
    have idk: "i_id (items ?db ! k) = i_id item"
      using Cons.prems(4,5) by (simp add: generate_item_id)
    from Cons.prems(1) True have "i_id item \<notin> i_id ` set its" by simp
    then have "\<forall>x \<in> set its. i_id x \<noteq> i_id (items ?db ! k)"
      unfolding idk by (metis imageI)
    from generate_loop_other [OF k this]
    have "items (snd (generate_loop now job env its ?db)) ! k = items ?db ! k" .
    with row nc show ?thesis by simp
  next
    case False
    with Cons.prems(2) have mem: "item \<in> set its" by simp
    from Cons.prems(1) mem have ne: "i_id a \<noteq> i_id item" by force
    from Cons.prems(1) have d: "distinct (map i_id its)" by simp
    from Cons.prems(3) have c: "\<forall>x \<in> set its. \<not> e_cancelled (env (i_id x))" by simp
    have idk: "i_id (items ?db ! k) = i_id item"
      using Cons.prems(4,5) by (simp add: generate_item_id)
    from Cons.IH [OF d mem c k idk] nc show ?thesis by simp
  qed
qed

lemma distinct_map_sort_key:
  "distinct (map f xs) \<Longrightarrow> distinct (map f (sort_key k xs))"
  by (simp add: distinct_map)

lemma eligible_distinct:
  assumes "distinct (map i_id (items db))"
  shows "distinct (map i_id (eligible_items job db))"
proof -
  let ?P = "\<lambda>i. i_jobId i = j_id job \<and> (i_status i = queued \<or> i_status i = failed)
                     \<and> i_targetType i = wanted_type job"
  have "distinct (map i_id (filter ?P (items db)))"
    using assms by (rule distinct_map_filter)
  then show ?thesis
    unfolding eligible_items_def by (rule distinct_map_sort_key)
qed

lemma eligible_job_update: "eligible_items job (update_job ident g db) = eligible_items job db"
  by (simp add: eligible_items_def items_simps)

text \<open>The definitions that evaluate a run on a concrete database.\<close>

lemmas eval_defs = processGenerate_def getAdminClientForShop_def generate_item_def
  eligible_items_def wanted_type_def isImageJob_def isBlogJob_def update_job_def update_item_def
  update_items_def touchLock_def apply_telemetry_def item_failed_def item_succeeded_def
  title_of_def stored_title_def or_null_def or_else_def or_empty_def trim_def isWhiteSpace_def
  smooth_round_def Let_def

text \<open>
  C9, as stated, at a job with \<open>metaTitle = false\<close> and an item whose stored title is the
  empty string: after a successful generate the stored title is null, not the empty
  string it was, since the row is written with \<open>seoTitle || null\<close>.
\<close>

theorem blank_title_counterexample:
  "map i_seoTitle (items (description_only_db (Some []))) = [Some []]
   \<and> map i_seoTitle (items (snd (processGenerate 1000 None (\<lambda>n. smooth_round (asc ''A'') (asc ''B''))
          False description_only_job (description_only_db (Some []))))) = [None]
   \<and> map i_status (items (snd (processGenerate 1000 None (\<lambda>n. smooth_round (asc ''A'') (asc ''B''))
          False description_only_job (description_only_db (Some []))))) = [success]"
  by (simp add: eval_defs description_only_db_def description_only_job_def description_only_item_def asc_def)

text \<open>
  C9 (amended): in a product job, for an item the generate phase works on and generates
  successfully (no cancellation during the run), the stored \<open>seoTitle\<close> afterwards is the
  Generator's title when \<open>metaTitle\<close> is set and the value before the run otherwise, and
  likewise \<open>seoDescription\<close> with \<open>metaDescription\<close>; in both cases an empty string is
  stored as null. So a field the job is not configured to produce keeps its value, except
  that an empty string becomes null.
\<close>

theorem generate_writes_configured_fields:
  assumes "distinct (map i_id (items db))"
    and "getAdminClientForShop (j_shop job) admin_error = Inr ()"
    and "\<not> isImageJob job" and "\<not> isBlogJob job"
    and "item \<in> set (eligible_items job db)"
    and "\<forall>x \<in> set (eligible_items job db). \<not> e_cancelled (env (i_id x))"
    and "e_fetched (env (i_id item)) = Inr f" and "e_seo (env (i_id item)) = Inr (t, d)"
    and "k < length (items db)" and "items db ! k = item"
  shows "i_status (items (snd (processGenerate now admin_error env c job db)) ! k) = success
     \<and> i_seoTitle (items (snd (processGenerate now admin_error env c job db)) ! k)
         = (if j_metaTitle job then or_null (Some t) else or_null (i_seoTitle item))
     \<and> i_seoDescription (items (snd (processGenerate now admin_error env c job db)) ! k)
         = (if j_metaDescription job then or_null (Some d) else or_null (i_seoDescription item))"
proof -
  let ?db1 = "update_job (j_id job)
                       (\<lambda>j. j\<lparr> j_status := running, j_startedAt := Some now,
                               j_lastHeartbeatAt := Some now, j_phase := Some generating,
                               j_lastError := None \<rparr>) db"
  let ?L = "generate_loop now job env (eligible_items job db) ?db1"
  have d: "distinct (map i_id (eligible_items job db))"
    using assms(1) by (rule eligible_distinct)
  have k1: "k < length (items ?db1)" using assms(9) by (simp add: items_simps)
  have id1: "i_id (items ?db1 ! k) = i_id item" using assms(10) by (simp add: items_simps)
  note row = generate_loop_target [OF d assms(5) assms(6) k1 id1 assms(3,4,7,8), of now]
  have "items (snd (processGenerate now admin_error env c job db)) = items (snd ?L)"
    using assms(2)
    by (simp add: processGenerate_def Let_def eligible_job_update items_simps split: prod.splits)
  with row show ?thesis by simp
qed

text \<open>The amended C9 at the job that writes descriptions only and an item that holds
  the title \<open>Old title\<close>: the title stays, the description is the Generator's.\<close>

theorem generate_writes_configured_fields_witness:
  "i_seoTitle (items (description_only_db (Some (asc ''Old title''))) ! 0) = Some (asc ''Old title'')
   \<and> \<not> j_metaTitle description_only_job \<and> j_metaDescription description_only_job
   \<and> i_status (items (snd (processGenerate 1000 None (\<lambda>n. smooth_round (asc ''A'') (asc ''B''))
          False description_only_job (description_only_db (Some (asc ''Old title''))))) ! 0) = success
   \<and> i_seoTitle (items (snd (processGenerate 1000 None (\<lambda>n. smooth_round (asc ''A'') (asc ''B''))
          False description_only_job (description_only_db (Some (asc ''Old title''))))) ! 0)
       = Some (asc ''Old title'')
   \<and> i_seoDescription (items (snd (processGenerate 1000 None (\<lambda>n. smooth_round (asc ''A'') (asc ''B''))
          False description_only_job (description_only_db (Some (asc ''Old title''))))) ! 0)
       = Some (asc ''B'')"
proof -
  let ?db = "description_only_db (Some (asc ''Old title''))"
  let ?item = "description_only_item (Some (asc ''Old title''))"
  let ?env = "\<lambda>n::nat. smooth_round (asc ''A'') (asc ''B'')"
  have el: "eligible_items description_only_job ?db = [?item]"
    by (simp add: eligible_items_def description_only_db_def description_only_item_def
        description_only_job_def wanted_type_def isImageJob_def isBlogJob_def)
  have a: "distinct (map i_id (items ?db))"
    by (simp add: description_only_db_def)
  have b: "getAdminClientForShop (j_shop description_only_job) None = Inr ()"
    by (simp add: getAdminClientForShop_def description_only_job_def or_empty_def trim_def
        isWhiteSpace_def asc_def)
  have c: "\<not> isImageJob description_only_job" and d: "\<not> isBlogJob description_only_job"
    by (simp_all add: isImageJob_def isBlogJob_def description_only_job_def)
  have e: "?item \<in> set (eligible_items description_only_job ?db)"
    by (simp add: el)
  have f: "\<forall>x \<in> set (eligible_items description_only_job ?db). \<not> e_cancelled (?env (i_id x))"
    by (simp add: el smooth_round_def)
  have g: "e_fetched (?env (i_id ?item)) = Inr (Some (asc ''Boot''))"
    and h: "e_seo (?env (i_id ?item)) = Inr (asc ''A'', asc ''B'')"
    by (simp_all add: smooth_round_def)
  have k: "(0::nat) < length (items ?db)" and n: "items ?db ! 0 = ?item"
    by (simp_all add: description_only_db_def)
  have m: "\<not> j_metaTitle description_only_job" "j_metaDescription description_only_job"
    by (simp_all add: description_only_job_def)
  have s: "i_seoTitle ?item = Some (asc ''Old title'')"
    by (simp add: description_only_item_def)
  have o: "or_null (Some (asc ''Old title'')) = Some (asc ''Old title'')"
    "or_null (Some (asc ''B'')) = Some (asc ''B'')"
    by (simp_all add: or_null_def asc_def)
  from generate_writes_configured_fields [OF a b c d e f g h k n, of 1000 False]
  show ?thesis using m s o n by simp
qed

text \<open>
  The job rows after one round, after the loop and after the phase: the counters of
  every job never fall, and their sum grows by at most one for each item the phase found
  at its start.
\<close>

lemma jobs_simps:
  "jobs (update_item i g db) = jobs db"
  "jobs (update_job ident f db) = map (\<lambda>j. if j_id j = ident then f j else j) (jobs db)"
  "jobs (touchLock now job db)
     = map (\<lambda>j. if j_id j = j_id job \<and> j_lockOwner j = j_lockOwner job
                 then j\<lparr> j_lockExpiresAt := Some (now + 300000), j_lastHeartbeatAt := Some now \<rparr>
                 else j) (jobs db)"
  by (simp_all add: update_job_def touchLock_def update_item_def update_items_def)

lemma generate_item_job_row:
  assumes "k < length (jobs db)"
  shows "length (jobs (generate_item now job e item db)) = length (jobs db)
     \<and> j_id (jobs (generate_item now job e item db) ! k) = j_id (jobs db ! k)
     \<and> j_total (jobs (generate_item now job e item db) ! k) = j_total (jobs db ! k)
     \<and> j_okCount (jobs db ! k) \<le> j_okCount (jobs (generate_item now job e item db) ! k)
     \<and> j_failedCount (jobs db ! k) \<le> j_failedCount (jobs (generate_item now job e item db) ! k)
     \<and> j_okCount (jobs (generate_item now job e item db) ! k)
         + j_failedCount (jobs (generate_item now job e item db) ! k)
         \<le> j_okCount (jobs db ! k) + j_failedCount (jobs db ! k) + 1"
  using assms
  by (simp add: generate_item_def Let_def jobs_simps apply_telemetry_def item_failed_def
      item_succeeded_def split: sum.splits prod.splits)

lemma generate_loop_job_row:
  assumes "k < length (jobs db)"
  shows "length (jobs (snd (generate_loop now job env its db))) = length (jobs db)
     \<and> j_id (jobs (snd (generate_loop now job env its db)) ! k) = j_id (jobs db ! k)
     \<and> j_total (jobs (snd (generate_loop now job env its db)) ! k) = j_total (jobs db ! k)
     \<and> j_okCount (jobs db ! k) \<le> j_okCount (jobs (snd (generate_loop now job env its db)) ! k)
     \<and> j_failedCount (jobs db ! k) \<le> j_failedCount (jobs (snd (generate_loop now job env its db)) ! k)
     \<and> j_okCount (jobs (snd (generate_loop now job env its db)) ! k)
         + j_failedCount (jobs (snd (generate_loop now job env its db)) ! k)
         \<le> j_okCount (jobs db ! k) + j_failedCount (jobs db ! k) + int (length its)"
  using assms
proof (induction its arbitrary: db)
  case Nil
  then show ?case by simp
next
  case (Cons a its)
  show ?case
  proof (cases "e_cancelled (env (i_id a))")
    case True
    then show ?thesis by simp
  next
    case False
    let ?db = "generate_item now job (env (i_id a)) a db"
    note step = generate_item_job_row [OF Cons.prems, of now job "env (i_id a)" a]
    then have k: "k < length (jobs ?db)" using Cons.prems by simp
    from Cons.IH [OF k] step False show ?thesis by simp
  qed
qed

lemma generate_counters:
  assumes "k < length (jobs db)"
  shows "j_total (jobs (snd (processGenerate now admin_error env c job db)) ! k) = j_total (jobs db ! k)
     \<and> j_okCount (jobs db ! k) \<le> j_okCount (jobs (snd (processGenerate now admin_error env c job db)) ! k)
     \<and> j_failedCount (jobs db ! k)
         \<le> j_failedCount (jobs (snd (processGenerate now admin_error env c job db)) ! k)
     \<and> j_okCount (jobs (snd (processGenerate now admin_error env c job db)) ! k)
         + j_failedCount (jobs (snd (processGenerate now admin_error env c job db)) ! k)
         \<le> j_okCount (jobs db ! k) + j_failedCount (jobs db ! k)
            + int (length (eligible_items job db))"
proof (cases "getAdminClientForShop (j_shop job) admin_error")
  case (Inl e)
  then show ?thesis by (simp add: processGenerate_def)
next
  case (Inr u)
  let ?db1 = "update_job (j_id job)
                       (\<lambda>j. j\<lparr> j_status := running, j_startedAt := Some now,
                               j_lastHeartbeatAt := Some now, j_phase := Some generating,
                               j_lastError := None \<rparr>) db"
  let ?L = "generate_loop now job env (eligible_items job db) ?db1"
  have k1: "k < length (jobs ?db1)" using assms by (simp add: jobs_simps)
  have r1: "j_total (jobs ?db1 ! k) = j_total (jobs db ! k)"
    "j_okCount (jobs ?db1 ! k) = j_okCount (jobs db ! k)"
    "j_failedCount (jobs ?db1 ! k) = j_failedCount (jobs db ! k)"
    using assms by (simp_all add: jobs_simps)
  note loop = generate_loop_job_row [OF k1, of now job env "eligible_items job db"]
  then have k2: "k < length (jobs (snd ?L))" using k1 by simp
  obtain stopped db2 where L: "?L = (stopped, db2)" by (cases ?L)
  from k2 L have k3: "k < length (jobs db2)" by simp
  have fin: "j_total (jobs (snd (processGenerate now admin_error env c job db)) ! k) = j_total (jobs (snd ?L) ! k)
     \<and> j_okCount (jobs (snd (processGenerate now admin_error env c job db)) ! k) = j_okCount (jobs (snd ?L) ! k)
     \<and> j_failedCount (jobs (snd (processGenerate now admin_error env c job db)) ! k)
         = j_failedCount (jobs (snd ?L) ! k)"
    using Inr k3 L
    by (simp add: processGenerate_def Let_def eligible_job_update jobs_simps)
  from fin loop r1 show ?thesis by simp
qed

text \<open>
  C1 at the re-delivered job (one item, \<open>total = 1\<close>, the item failed and already counted
  in \<open>failedCount\<close>): the phase takes the failed item again without taking its earlier
  count back. When the Generator now succeeds the counters read \<open>okCount = 1\<close>,
  \<open>failedCount = 1\<close>; when it fails again they read \<open>okCount = 0\<close>, \<open>failedCount = 2\<close>.
  In both runs \<open>okCount + failedCount = 2\<close> exceeds \<open>total = 1\<close>.
\<close>

theorem rerun_counts_twice:
  "map (\<lambda>j. (j_okCount j, j_failedCount j, j_total j)) (jobs redelivered_db) = [(0, 1, 1)]
   \<and> map (\<lambda>j. (j_okCount j, j_failedCount j, j_total j))
        (jobs (snd (processGenerate 1000 None (\<lambda>n. smooth_round (asc ''A'') (asc ''B''))
           False redelivered_job redelivered_db))) = [(1, 1, 1)]
   \<and> map (\<lambda>j. (j_okCount j, j_failedCount j, j_total j))
        (jobs (snd (processGenerate 1000 None
           (\<lambda>n. (smooth_round [] [])\<lparr> e_seo := Inl (asc ''OpenAI request failed (400).'') \<rparr>)
           False redelivered_job redelivered_db))) = [(0, 2, 1)]"
  by (simp add: eval_defs redelivered_db_def redelivered_job_def redelivered_item_def asc_def)

end
